theory Spec2Isabelle
  imports Main "HOL-Library.AList"
begin

section \<open>JavaScript values, errors and the HTTP boundary\<close>

text \<open>
  The automation is JavaScript on an event loop. Values that cross the HTTP boundary are
  JSON; \<open>JUndefined\<close> stands for a property that is absent.
\<close>

datatype json =
    JUndefined
  | JNull
  | JBool bool
  | JNum int
  | JStr string
  | JArr "json list"
  | JObj "(string \<times> json) list"

text \<open>JavaScript truthiness, as \<open>if (v)\<close>, \<open>v || w\<close> and \<open>!v\<close> read it.\<close>

fun truthy :: "json \<Rightarrow> bool" where
  "truthy JUndefined = False"
| "truthy JNull = False"
| "truthy (JBool b) = b"
| "truthy (JNum n) = (n \<noteq> 0)"
| "truthy (JStr s) = (s \<noteq> [])"
| "truthy (JArr _) = True"
| "truthy (JObj _) = True"

datatype error =
    TypeError
  | NetworkError string
  | HttpError nat
  | PageError
  | Error string

text \<open>
  Property access \<open>v.k\<close>: a \<open>TypeError\<close> on \<open>undefined\<close> and \<open>null\<close>, the stored
  value on an object, \<open>undefined\<close> on everything else (the keys read here are not
  properties of strings, numbers or arrays).
\<close>

fun getprop :: "json \<Rightarrow> string \<Rightarrow> error + json" where
  "getprop JUndefined k = Inl TypeError"
| "getprop JNull k = Inl TypeError"
| "getprop (JObj kvs) k = Inr (case map_of kvs k of None \<Rightarrow> JUndefined | Some v \<Rightarrow> v)"
| "getprop v k = Inr JUndefined"

text \<open>Optional chaining \<open>v?.k\<close>: \<open>undefined\<close> instead of the \<open>TypeError\<close>.\<close>

definition getprop_opt :: "json \<Rightarrow> string \<Rightarrow> json" where
  "getprop_opt v k = (case getprop v k of Inl _ \<Rightarrow> JUndefined | Inr w \<Rightarrow> w)"

text \<open>
  What the network answers to one request: nothing (a transport error, with the message
  of the error axios then throws), or a response with its status, its \<open>location\<close> and
  \<open>set-cookie\<close> headers and its parsed body.
\<close>

record response =
  status :: nat
  location :: "string option"
  set_cookie :: "string list option"
  data :: json

datatype http_outcome = NoResponse string | Response response

text \<open>
  axios rejects when there is no response and when \<open>validateStatus\<close> refuses the status;
  otherwise it resolves with the response.
\<close>

definition axios :: "(nat \<Rightarrow> bool) \<Rightarrow> http_outcome \<Rightarrow> error + response" where
  "axios validateStatus out =
     (case out of
        NoResponse m \<Rightarrow> Inl (NetworkError m)
      | Response r \<Rightarrow> if validateStatus (status r) then Inr r else Inl (HttpError (status r)))"

text \<open>\<open>validateStatus: (status) => status < 400\<close> of \<open>createAxiosInstance\<close>.\<close>

definition instanceValidate :: "nat \<Rightarrow> bool" where
  "instanceValidate s = (s < 400)"

datatype http_method = GET | POST | PUT

datatype body = NoBody | Form "(string \<times> string) list" | Json json

text \<open>The controls of the agent page that the browser automation clicks.\<close>

datatype control =
    WrapupButton
  | WrapupModalButton
  | DispositionStatusButton
  | DispositionPanelButton
  | StatusButton
  | AvailableOption
  | NotReadyBreakOption

text \<open>
  What a run does to the outside, in order: an HTTP request (method, URL, body, Cookie
  header); a timed sleep in milliseconds; a line of the log (warnings, errors and the
  informational lines the claims read); the log lines that open a call (its number and
  lead id); a click on a control of the page; a function of the page's Angular scope
  called with an argument; reading the page's cookies (\<open>page.cookies()\<close>); closing the
  browser; and \<open>process.exit\<close>.
\<close>

datatype event =
    Request http_method string body string
  | Sleep nat
  | Warn string
  | Err string
  | Info string
  | CallStarted nat json
  | Click control
  | ScopeCall string string
  | PageCookies
  | CloseBrowser
  | Exit nat

text \<open>An awaited call into the browser: it rejects, or resolves with a value.\<close>

datatype 'a outcome = Rejects | Resolves 'a

section \<open>Configuration\<close>

record config =
  username :: string
  password :: string
  trustedDeviceCookie :: string
  campaignId :: string
  campaignName :: string
  campaignDialMethod :: string
  callDuration :: nat
  pollInterval :: nat
  maxCalls :: int
  availabilityReady :: string
  availabilityNotReady :: string
  dispositionStatus :: string
  logoutCode :: string

definition ep_login :: string where
  "ep_login = ''https://agent.convoso.com/login/check-login''"
definition ep_phoneLogin :: string where
  "ep_phoneLogin = ''https://agent-dt.convoso.com/phone/login''"
definition ep_availabilityChange :: string where
  "ep_availabilityChange = ''https://agent-dt.convoso.com/phone/availability-change''"
definition ep_resume :: string where
  "ep_resume = ''https://agent-dt.convoso.com/phone/resume''"
definition ep_checkAutoIncoming :: string where
  "ep_checkAutoIncoming = ''https://agent-dt.convoso.com/phone/check-auto-incoming''"
definition ep_hangup :: string where
  "ep_hangup = ''https://agent-dt.convoso.com/phone/hangup''"
definition ep_leadDisposition :: string where
  "ep_leadDisposition = ''https://agent-dt.convoso.com/phone/lead-disposition''"
definition ep_phoneLogout :: string where
  "ep_phoneLogout = ''https://agent-dt.convoso.com/phone/logout''"

section \<open>ConvosoAPI: the REST client\<close>

text \<open>
  A plain object used as a dictionary, with its own properties in the order they were
  created. \<open>obj[k] = v\<close> creates or overwrites the property \<open>k\<close>, except for the key
  \<open>__proto__\<close>: that assignment goes to the accessor of \<open>Object.prototype\<close>, which
  ignores a value that is neither an object nor \<open>null\<close> (the values stored here are
  strings and \<open>undefined\<close>), so no property is created.
\<close>

definition obj_set :: "(string \<times> 'a) list \<Rightarrow> string \<Rightarrow> 'a \<Rightarrow> (string \<times> 'a) list" where
  "obj_set obj k v = (if k = ''__proto__'' then obj else AList.update k v obj)"

definition is_digit :: "char \<Rightarrow> bool" where
  "is_digit c = (c \<in> set ''0123456789'')"

definition digits_val :: "string \<Rightarrow> nat" where
  "digits_val k = foldl (\<lambda>n c. 10 * n + (of_char c - 48)) 0 k"

text \<open>
  An array index: the canonical decimal text of an integer from 0 to \<open>2^32 - 2\<close>.
\<close>

definition is_array_index :: "string \<Rightarrow> bool" where
  "is_array_index k =
     (k \<noteq> [] \<and> list_all is_digit k \<and> (k = ''0'' \<or> hd k \<noteq> CHR ''0'') \<and>
      digits_val k < 4294967295)"

text \<open>
  \<open>Object.entries(obj)\<close>: the properties whose key is an array index come first, in
  ascending numeric order, then the other properties in creation order.
\<close>

definition entries :: "(string \<times> 'a) list \<Rightarrow> (string \<times> 'a) list" where
  "entries obj =
     sort_key (\<lambda>(k, v). digits_val k) (filter (\<lambda>(k, v). is_array_index k) obj) @
     filter (\<lambda>(k, v). \<not> is_array_index k) obj"

text \<open>
  The client's fields. \<open>cookies\<close> is a plain object used as a dictionary from cookie
  name to value; a value is \<open>None\<close> when the stored value is \<open>undefined\<close>.
\<close>

record api =
  cookies :: "(string \<times> string option) list"
  sessionId :: json
  agentLogId :: json
  userId :: json

definition api_init :: api where
  "api_init = \<lparr>cookies = [], sessionId = JNull, agentLogId = JNull, userId = JNull\<rparr>"

fun join_with :: "string \<Rightarrow> string list \<Rightarrow> string" where
  "join_with sep [] = []"
| "join_with sep [x] = x"
| "join_with sep (x # y # ys) = x @ sep @ join_with sep (y # ys)"

definition cookie_text :: "string option \<Rightarrow> string" where
  "cookie_text v = (case v of None \<Rightarrow> ''undefined'' | Some s \<Rightarrow> s)"

text \<open>The Cookie header \<open>createAxiosInstance\<close> derives from the jar at call time.\<close>

definition cookieString :: "api \<Rightarrow> string" where
  "cookieString st =
     join_with ''; '' (map (\<lambda>(k, v). k @ ''='' @ cookie_text v) (entries (cookies st)))"

text \<open>\<open>s.split(c)\<close> for a one-character separator: never an empty array.\<close>

fun split_on :: "char \<Rightarrow> string \<Rightarrow> string list" where
  "split_on c [] = [[]]"
| "split_on c (x # xs) =
     (if x = c then [] # split_on c xs
      else (case split_on c xs of
              [] \<Rightarrow> [[x]]
            | p # ps \<Rightarrow> (x # p) # ps))"

text \<open>
  One \<open>set-cookie\<close> header: \<open>[nameValue] = cookie.split(';')\<close>, then
  \<open>[name, value] = nameValue.split('=')\<close> and \<open>this.cookies[name] = value\<close>.
\<close>

definition cookie_name :: "string \<Rightarrow> string" where
  "cookie_name cookie =
     (case split_on CHR '';'' cookie of
        [] \<Rightarrow> []
      | nameValue # _ \<Rightarrow> (case split_on CHR ''='' nameValue of [] \<Rightarrow> [] | name # _ \<Rightarrow> name))"

definition cookie_value :: "string \<Rightarrow> string option" where
  "cookie_value cookie =
     (case split_on CHR '';'' cookie of
        [] \<Rightarrow> None
      | nameValue # _ \<Rightarrow>
          (case split_on CHR ''='' nameValue of
             _ # value # _ \<Rightarrow> Some value
           | _ \<Rightarrow> None))"

definition store_cookie :: "api \<Rightarrow> string \<Rightarrow> api" where
  "store_cookie st cookie =
     st\<lparr>cookies := obj_set (cookies st) (cookie_name cookie) (cookie_value cookie)\<rparr>"

definition extractCookies :: "api \<Rightarrow> response \<Rightarrow> api" where
  "extractCookies st r =
     (case set_cookie r of
        None \<Rightarrow> st
      | Some setCookieHeaders \<Rightarrow> foldl store_cookie st setCookieHeaders)"


definition startsWith :: "string \<Rightarrow> string \<Rightarrow> bool" where
  "startsWith s p = (take (length p) s = p)"

text \<open>
  \<open>response.status === 302 && response.headers.location\<close>: the redirect target when the
  condition holds.
\<close>

definition redirect_target :: "response \<Rightarrow> string option" where
  "redirect_target r =
     (if status r = 302 then
        (case location r of
           None \<Rightarrow> None
         | Some l \<Rightarrow> if l \<noteq> [] then Some l else None)
      else None)"

text \<open>
  A request made with \<open>maxRedirects: 0\<close> returns the first answer whatever its status.
  With \<open>maxRedirects: n\<close> axios hands the request to \<open>follow-redirects\<close>: an answer with
  a status from 300 to 399 and a non-empty \<open>location\<close> is not returned but followed, up
  to \<open>n\<close> times, and one redirect more is the error
  \<open>Maximum number of redirects exceeded\<close>. \<open>hops k\<close> is the answer to the \<open>k\<close>-th
  request of the chain; only the answer that ends the chain reaches the caller.
\<close>

definition redirects :: "response \<Rightarrow> bool" where
  "redirects r =
     (300 \<le> status r \<and> status r < 400 \<and>
      (case location r of None \<Rightarrow> False | Some l \<Rightarrow> l \<noteq> []))"

fun follow :: "nat \<Rightarrow> (nat \<Rightarrow> http_outcome) \<Rightarrow> nat \<Rightarrow> http_outcome" where
  "follow 0 hops k =
     (case hops k of
        NoResponse m \<Rightarrow> NoResponse m
      | Response r \<Rightarrow>
          if redirects r then NoResponse ''Maximum number of redirects exceeded''
          else Response r)"
| "follow (Suc n) hops k =
     (case hops k of
        NoResponse m \<Rightarrow> NoResponse m
      | Response r \<Rightarrow> if redirects r then follow n hops (Suc k) else Response r)"

text \<open>
  What the network answers during \<open>login\<close>: to the credential POST, to the GET of the
  first redirect target (by the URL requested, which is the \<open>location\<close> header exactly
  as received), and to the GET of the second target (by the URL requested and the
  position in the chain of redirects that axios follows from there).
\<close>

record login_env =
  login_post :: http_outcome
  login_redirect1 :: "string \<Rightarrow> http_outcome"
  login_redirect2 :: "string \<Rightarrow> nat \<Rightarrow> http_outcome"

text \<open>\<open>finalUrl\<close>: the second target, completed with the host when it is relative.\<close>

definition finalUrl :: "string \<Rightarrow> string" where
  "finalUrl secondRedirect =
     (if startsWith secondRedirect ''http'' then secondRedirect
      else ''https://agent-dt.convoso.com'' @ secondRedirect)"

text \<open>
  \<open>login\<close>: POST the credentials without following redirects, GET the redirect target
  without following redirects, and when that answers 302 again GET the second target,
  following up to five redirects. Cookies are extracted from the three responses
  \<open>login\<close> receives; the requests in the trace are the three it asks axios for. A
  rejected request and the missing redirect are thrown again by the \<open>catch\<close>.
\<close>

definition login ::
  "config \<Rightarrow> login_env \<Rightarrow> api \<Rightarrow> string \<Rightarrow> string \<Rightarrow> (error + bool) \<times> api \<times> event list" where
  "login cfg env st0 user pass =
     (let tdc = trustedDeviceCookie cfg;
          st1 = (if tdc \<noteq> []
                 then st0\<lparr>cookies := obj_set (cookies st0) ''trusted_device'' (Some tdc)\<rparr>
                 else st0);
          ev1 = [Request POST ep_login (Form [(''username'', user), (''password'', pass)])
                   (if tdc \<noteq> [] then ''trusted_device='' @ tdc else [])]
      in case axios (\<lambda>s. s = 302 \<or> s = 200) (login_post env) of
           Inl e \<Rightarrow> (Inl e, st1, ev1)
         | Inr response \<Rightarrow>
             (let st2 = extractCookies st1 response
              in case redirect_target response of
                   None \<Rightarrow> (Inl (Error ''Login failed - no redirect received''), st2, ev1)
                 | Some redirectUrl \<Rightarrow>
                     (let ev2 = ev1 @ [Request GET redirectUrl NoBody (cookieString st2)]
                      in case axios (\<lambda>s. s < 400) (login_redirect1 env redirectUrl) of
                           Inl e \<Rightarrow> (Inl e, st2, ev2)
                         | Inr verifyResponse \<Rightarrow>
                             (let st3 = extractCookies st2 verifyResponse
                              in case redirect_target verifyResponse of
                                   None \<Rightarrow> (Inr True, st3, ev2)
                                 | Some secondRedirect \<Rightarrow>
                                     (let ev3 = ev2 @ [Request GET (finalUrl secondRedirect) NoBody
                                                         (cookieString st3)]
                                      in case axios (\<lambda>s. s < 400)
                                                (follow 5 (login_redirect2 env (finalUrl secondRedirect)) 0) of
                                           Inl e \<Rightarrow> (Inl e, st3, ev3)
                                         | Inr finalResponse \<Rightarrow>
                                             (Inr True, extractCookies st3 finalResponse, ev3))))))"

text \<open>
  \<open>phoneLogin\<close>: the session identifiers are stored when the body reports success and
  carries a \<open>data\<close> object.
\<close>

definition phoneLogin ::
  "http_outcome \<Rightarrow> api \<Rightarrow> string \<Rightarrow> string \<Rightarrow> string \<Rightarrow> (error + json) \<times> api \<times> event list" where
  "phoneLogin out st cid cname dialMethod =
     (let ev = [Request POST ep_phoneLogin
                  (Json (JObj [(''CurrentConnectionOptions'',
                                  JObj [(''value'', JStr cid), (''name'', JStr cname),
                                        (''type'', JStr ''campaign''), (''dial_method'', JStr dialMethod)]),
                               (''login_type'', JStr ''login''),
                               (''selected_channels'', JArr [JStr ''VOICE''])]))
                  (cookieString st)]
      in case axios instanceValidate out of
           Inl e \<Rightarrow> (Inl e, st, ev)
         | Inr response \<Rightarrow>
             (let st1 = extractCookies st response
              in case getprop (data response) ''success'' of
                   Inl e \<Rightarrow> (Inl e, st1, ev)
                 | Inr ok \<Rightarrow>
                     (let d = getprop_opt (data response) ''data''
                      in if truthy ok \<and> truthy d
                         then (Inr (data response),
                               st1\<lparr>sessionId := getprop_opt d ''session_id'',
                                    agentLogId := getprop_opt d ''agent_log_id''\<rparr>, ev)
                         else (Inl (Error ''Phone login failed - invalid response''), st1, ev))))"

record avail_env =
  resume_out :: http_outcome
  avail_out :: http_outcome
  avail_uid :: string

text \<open>
  \<open>changeAvailability\<close>: for the ready code the resume request goes first, inside its
  own \<open>try\<close> whose \<open>catch\<close> only warns, followed by a 500 ms pause; the
  availability-change request follows in every case.
\<close>

definition changeAvailability_events ::
  "config \<Rightarrow> avail_env \<Rightarrow> api \<Rightarrow> string \<Rightarrow> json \<Rightarrow> event list" where
  "changeAvailability_events cfg env st cid availabilityCode =
     (let ready = (availabilityCode = JStr (availabilityReady cfg));
          cookie = cookieString st
      in (if ready then
            [Request POST ep_resume
               (Json (JObj [(''campaign'', JStr cid), (''campaign_uids'', JArr [JStr cid]),
                            (''session_id'', sessionId st), (''agent_log_id'', agentLogId st)]))
               cookie,
             (case axios instanceValidate (resume_out env) of
                Inl _ \<Rightarrow> Warn ''Resume call failed, continuing anyway...''
              | Inr _ \<Rightarrow> Info ''Resume successful''),
             Sleep 500]
          else []) @
         [Request POST ep_availabilityChange
            (Json (JObj [(''campaign'', if ready then JStr [] else JStr cid),
                         (''campaign_uids'', JArr [JStr cid]),
                         (''availability'', availabilityCode),
                         (''uid'', JStr (avail_uid env))]))
            cookie])"

definition changeAvailability ::
  "config \<Rightarrow> avail_env \<Rightarrow> api \<Rightarrow> string \<Rightarrow> json \<Rightarrow> (error + json) \<times> api \<times> event list" where
  "changeAvailability cfg env st cid availabilityCode =
     (let ev = changeAvailability_events cfg env st cid availabilityCode
      in case axios instanceValidate (avail_out env) of
           Inl e \<Rightarrow> (Inl e, st, ev)
         | Inr response \<Rightarrow>
             (let st1 = extractCookies st response
              in case getprop (data response) ''success'' of
                   Inl e \<Rightarrow> (Inl e, st1, ev)
                 | Inr ok \<Rightarrow>
                     if truthy ok then (Inr (data response), st1, ev)
                     else (Inl (Error ''Availability change failed''), st1, ev)))"

text \<open>
  \<open>checkAutoIncoming\<close>: one poll. \<open>Some info\<close> is \<open>{found: true, callInfo: info}\<close>,
  \<open>None\<close> is \<open>{found: false}\<close>.
\<close>

definition checkAutoIncoming_body :: "api \<Rightarrow> string \<Rightarrow> string \<Rightarrow> string \<Rightarrow> json" where
  "checkAutoIncoming_body st cid dialMethod uid =
     JObj [(''campaign'', JStr []), (''campaign_uids'', JArr [JStr cid]),
           (''campaign_dial_method'', JStr dialMethod),
           (''agent_log_id'', agentLogId st), (''session_id'', sessionId st),
           (''agent_setting_sources'', JStr ''source_campaign''),
           (''preview_inbound_call_state'', JNum 0), (''uid'', JStr uid)]"

text \<open>What \<open>checkAutoIncoming\<close> makes of the answer to its request.\<close>

definition poll_answer :: "http_outcome \<Rightarrow> error + json option" where
  "poll_answer out =
     (case axios instanceValidate out of
        Inl e \<Rightarrow> Inl e
      | Inr response \<Rightarrow>
          (case getprop (data response) ''success'' of
             Inl e \<Rightarrow> Inl e
           | Inr ok \<Rightarrow>
               if truthy ok then
                 (case getprop (getprop_opt (data response) ''data'') ''found'' of
                    Inl e \<Rightarrow> Inl e
                  | Inr found \<Rightarrow>
                      if found = JNum 1
                      then Inr (Some (getprop_opt (getprop_opt (data response) ''data'') ''info''))
                      else Inr None)
               else Inr None))"

definition checkAutoIncoming ::
  "http_outcome \<Rightarrow> string \<Rightarrow> api \<Rightarrow> string \<Rightarrow> string \<Rightarrow> (error + json option) \<times> api \<times> event list" where
  "checkAutoIncoming out uid st cid dialMethod =
     (poll_answer out, st,
      [Request POST ep_checkAutoIncoming
         (Json (checkAutoIncoming_body st cid dialMethod uid)) (cookieString st)])"

text \<open>Decimal text of a number, as \<open>toString()\<close> prints a non-negative integer.\<close>

fun show_nat :: "nat \<Rightarrow> string" where
  "show_nat n =
     (if n < 10 then [char_of (48 + n)]
      else show_nat (n div 10) @ [char_of (48 + n mod 10)])"

declare show_nat.simps [simp del]

text \<open>\<open>a || b\<close>.\<close>

definition js_or :: "json \<Rightarrow> json \<Rightarrow> json" where
  "js_or a b = (if truthy a then a else b)"

text \<open>
  \<open>hangup\<close>: the log line reads \<open>callInfo.phone_code\<close> first, so a missing
  \<open>callInfo\<close> throws before any request; the platform acknowledges with \<open>ishangup\<close>.
\<close>

definition hangup ::
  "http_outcome \<Rightarrow> api \<Rightarrow> string \<Rightarrow> json \<Rightarrow> nat \<Rightarrow> json \<Rightarrow> json \<Rightarrow> (error + json) \<times> api \<times> event list" where
  "hangup out st cid callInfo duration sid alid =
     (case getprop callInfo ''phone_code'' of
        Inl e \<Rightarrow> (Inl e, st, [])
      | Inr _ \<Rightarrow>
          (let ev = [Request POST ep_hangup
                       (Json (JObj [(''campaign'', JStr cid),
                                    (''session_id'', js_or sid (sessionId st)),
                                    (''agent_log_id'', js_or alid (agentLogId st)),
                                    (''call_time'', JStr (show_nat (duration div 1000))),
                                    (''caller_id'', JStr []),
                                    (''conference'', JNum 0),
                                    (''max_hold_time_reached'', JNum 0),
                                    (''term_reason'', JStr ''AGENT''),
                                    (''lead_info'', callInfo)]))
                       (cookieString st)]
           in case axios instanceValidate out of
                Inl e \<Rightarrow> (Inl e, st, ev)
              | Inr response \<Rightarrow>
                  (case getprop (data response) ''ishangup'' of
                     Inl e \<Rightarrow> (Inl e, st, ev)
                   | Inr ok \<Rightarrow>
                       if truthy ok then (Inr (data response), st, ev)
                       else (Inl (Error ''Hangup failed''), st, ev))))"

record dispo_env =
  dispo_out :: http_outcome
  dispo_date :: string

definition setDisposition_body ::
  "api \<Rightarrow> string \<Rightarrow> string \<Rightarrow> json \<Rightarrow> json \<Rightarrow> json \<Rightarrow> string \<Rightarrow> json" where
  "setDisposition_body st date cid leadId phoneCode phoneNumber dispo =
     JObj [(''campaign'', JStr cid), (''lead_id'', leadId), (''status'', JStr dispo),
           (''agent_log_id'', agentLogId st),
           (''phone_code'', phoneCode), (''phone_number'', phoneNumber),
           (''call_type'', JStr ''OUT''), (''comments'', JStr []), (''audio_quality'', JStr []),
           (''blended'', JStr ''0''), (''callback_recipient'', JStr ''1''),
           (''callback_time'', JStr []), (''callback_time_zone'', JStr ''-5.00''),
           (''dispo_callback'', JStr []), (''pause_dialer'', JStr []), (''queue_id'', JNull),
           (''script_json_data'',
              JObj [(''user_id'', js_or (userId st) (JNum 0)), (''date'', JStr date)]),
           (''selected_dispo_note'', JStr []), (''voice_off'', JBool False)]"

text \<open>
  \<open>setDisposition\<close>: one PUT. On a successful body a truthy
  \<open>response.data.data?.agentLogId\<close> replaces the stored \<open>agentLogId\<close>.
\<close>

definition setDisposition ::
  "dispo_env \<Rightarrow> api \<Rightarrow> string \<Rightarrow> json \<Rightarrow> json \<Rightarrow> json \<Rightarrow> string \<Rightarrow> (error + json) \<times> api \<times> event list" where
  "setDisposition env st cid leadId phoneCode phoneNumber dispo =
     (let ev = [Request PUT ep_leadDisposition
                  (Json (setDisposition_body st (dispo_date env) cid leadId phoneCode phoneNumber dispo))
                  (cookieString st)]
      in case axios instanceValidate (dispo_out env) of
           Inl e \<Rightarrow> (Inl e, st, ev)
         | Inr response \<Rightarrow>
             (let st1 = extractCookies st response
              in case getprop (data response) ''success'' of
                   Inl e \<Rightarrow> (Inl e, st1, ev)
                 | Inr ok \<Rightarrow>
                     if truthy ok then
                       (let newId = getprop_opt (getprop_opt (data response) ''data'') ''agentLogId''
                        in (Inr (data response),
                            (if truthy newId then st1\<lparr>agentLogId := newId\<rparr> else st1), ev))
                     else (Inl (Error ''Disposition failed''), st1, ev)))"

definition phoneLogout_body :: "config \<Rightarrow> api \<Rightarrow> string \<Rightarrow> json" where
  "phoneLogout_body cfg st cid =
     JObj [(''logout_code'', JStr (logoutCode cfg)), (''campaign'', JStr cid),
           (''campaign_uids'', JArr [JStr cid]),
           (''agent_log_id'', agentLogId st), (''session_id'', sessionId st)]"

text \<open>
  \<open>phoneLogout\<close>: resolves when the body reports success or the status is exactly 200,
  and throws \<open>Phone logout failed\<close> on every other response axios lets through.
\<close>

definition phoneLogout ::
  "config \<Rightarrow> http_outcome \<Rightarrow> api \<Rightarrow> string \<Rightarrow> (error + json) \<times> api \<times> event list" where
  "phoneLogout cfg out st cid =
     (let ev = [Request POST ep_phoneLogout (Json (phoneLogout_body cfg st cid)) (cookieString st)]
      in case axios instanceValidate out of
           Inl e \<Rightarrow> (Inl e, st, ev)
         | Inr response \<Rightarrow>
             (case getprop (data response) ''success'' of
                Inl e \<Rightarrow> (Inl e, st, ev)
              | Inr ok \<Rightarrow>
                  if truthy ok \<or> status response = 200 then (Inr (data response), st, ev)
                  else (Inl (Error ''Phone logout failed''), st, ev)))"


subsection \<open>Reading a trace\<close>

fun is_request :: "event \<Rightarrow> bool" where
  "is_request (Request _ _ _ _) = True"
| "is_request _ = False"

fun request_url :: "event \<Rightarrow> string" where
  "request_url (Request _ u _ _) = u"
| "request_url _ = []"

text \<open>The URLs of the requests of a trace, in the order they were issued.\<close>

definition request_urls :: "event list \<Rightarrow> string list" where
  "request_urls evs = map request_url (filter is_request evs)"

text \<open>The \<open>set-cookie\<close> headers of a response, none when the header is absent.\<close>

definition headers_of :: "response \<Rightarrow> string list" where
  "headers_of r = (case set_cookie r of None \<Rightarrow> [] | Some hs \<Rightarrow> hs)"

text \<open>
  The defaults of \<open>config.js\<close>; the three required settings (user, password, campaign)
  have no default and carry sample values.
\<close>

definition default_config :: config where
  "default_config =
     \<lparr>username = ''agent'', password = ''secret'', trustedDeviceCookie = [],
      campaignId = ''1173'', campaignName = ''Default Campaign'',
      campaignDialMethod = ''RATIO'', callDuration = 15000, pollInterval = 2000,
      maxCalls = 0, availabilityReady = ''2'', availabilityNotReady = ''1066'',
      dispositionStatus = ''NOCONT'', logoutCode = ''20''\<rparr>"

subsection \<open>Facts about the cookie jar\<close>

lemma extractCookies_foldl: "extractCookies st r = foldl store_cookie st (headers_of r)"
  by (simp add: extractCookies_def headers_of_def split: option.splits)

lemma store_cookie_keys:
  "fst ` set (cookies (store_cookie st h)) =
     (if cookie_name h = ''__proto__'' then fst ` set (cookies st)
      else insert (cookie_name h) (fst ` set (cookies st)))"
  by (simp add: store_cookie_def obj_set_def dom_update)

lemma foldl_store_cookie_keys:
  "fst ` set (cookies (foldl store_cookie st hs)) =
     (cookie_name ` set hs - {''__proto__''}) \<union> fst ` set (cookies st)"
proof (induction hs arbitrary: st)
  case Nil
  show ?case by simp
next
  case (Cons h hs)
  show ?case unfolding foldl_Cons Cons.IH store_cookie_keys by auto
qed

lemma axios_accepts:
  "validateStatus (status r) \<Longrightarrow> axios validateStatus (Response r) = Inr r"
  by (simp add: axios_def)

lemma redirect_target_302:
  "status r = 302 \<Longrightarrow> location r = Some l \<Longrightarrow> l \<noteq> [] \<Longrightarrow> redirect_target r = Some l"
  by (simp add: redirect_target_def)

lemma follow_final: "hops k = Response r \<Longrightarrow> \<not> redirects r \<Longrightarrow> follow n hops k = Response r"
  by (cases n) simp_all

lemma store_cookie_map_of:
  "map_of (cookies (store_cookie st h)) =
     (if cookie_name h = ''__proto__'' then map_of (cookies st)
      else (map_of (cookies st))(cookie_name h \<mapsto> cookie_value h))"
  by (simp add: store_cookie_def obj_set_def update_conv')

lemma foldl_store_cookie_other:
  "n \<notin> cookie_name ` set hs \<Longrightarrow>
   map_of (cookies (foldl store_cookie st hs)) n = map_of (cookies st) n"
  by (induction hs arbitrary: st) (auto simp: store_cookie_map_of)

lemma foldl_store_cookie_last:
  "cookie_name h \<notin> cookie_name ` set hs' \<Longrightarrow> cookie_name h \<noteq> ''__proto__'' \<Longrightarrow>
   map_of (cookies (foldl store_cookie st (hs @ h # hs'))) (cookie_name h) = Some (cookie_value h)"
  by (simp add: foldl_store_cookie_other store_cookie_map_of)

text \<open>The jar \<open>login\<close> starts from: the trusted-device cookie is stored first when configured.\<close>

definition login_start :: "config \<Rightarrow> api \<Rightarrow> api" where
  "login_start cfg st0 =
     (if trustedDeviceCookie cfg \<noteq> []
      then st0\<lparr>cookies := obj_set (cookies st0) ''trusted_device'' (Some (trustedDeviceCookie cfg))\<rparr>
      else st0)"

lemma login_start_proto:
  "''__proto__'' \<in> fst ` set (cookies (login_start cfg st0)) = (''__proto__'' \<in> fst ` set (cookies st0))"
  by (simp add: login_start_def obj_set_def dom_update)

lemma login_depth2_state:
  assumes "login_post env = Response r0" "status r0 = 302" "location r0 = Some l0" "l0 \<noteq> []"
    and "login_redirect1 env l0 = Response r1" "status r1 = 302" "location r1 = Some l1" "l1 \<noteq> []"
    and "login_redirect2 env (finalUrl l1) 0 = Response r2" "\<not> redirects r2" "status r2 < 400"
  shows "fst (login cfg env st0 user pass) = Inr True"
    and "fst (snd (login cfg env st0 user pass)) =
           foldl store_cookie (login_start cfg st0) (headers_of r0 @ headers_of r1 @ headers_of r2)"
  using assms follow_final[of "login_redirect2 env (finalUrl l1)" 0 r2 5]
  by (simp_all add: login_def login_start_def Let_def axios_def redirect_target_def
        extractCookies_foldl)

lemma changeAvailability_trace:
  "snd (snd (changeAvailability cfg env st cid code)) = changeAvailability_events cfg env st cid code"
  unfolding changeAvailability_def Let_def
  by (simp split: sum.split)

lemma changeAvailability_urls:
  "request_urls (changeAvailability_events cfg env st cid code) =
     (if code = JStr (availabilityReady cfg)
      then [ep_resume, ep_availabilityChange]
      else [ep_availabilityChange])"
  unfolding changeAvailability_events_def Let_def request_urls_def
  by (cases "axios instanceValidate (resume_out env)") simp_all

lemma changeAvailability_result:
  "fst (changeAvailability cfg (env\<lparr>resume_out := r\<rparr>) st cid code) =
     fst (changeAvailability cfg env st cid code)"
  unfolding changeAvailability_def Let_def
  by (simp split: sum.split)

lemma setDisposition_events:
  "snd (snd (setDisposition env st cid leadId phoneCode phoneNumber dispo)) =
     [Request PUT ep_leadDisposition
        (Json (setDisposition_body st (dispo_date env) cid leadId phoneCode phoneNumber dispo))
        (cookieString st)]"
  by (simp add: setDisposition_def Let_def split: sum.splits)

subsection \<open>The agent log id in request bodies\<close>

text \<open>The JSON bodies of the requests of a trace.\<close>

fun json_bodies :: "event list \<Rightarrow> json list" where
  "json_bodies [] = []"
| "json_bodies (Request _ _ (Json b) _ # evs) = b # json_bodies evs"
| "json_bodies (_ # evs) = json_bodies evs"

text \<open>A body that has an \<open>agent_log_id\<close> field has the value \<open>v\<close> in it.\<close>

definition carries :: "json \<Rightarrow> json \<Rightarrow> bool" where
  "carries v b =
     (case b of
        JObj kvs \<Rightarrow> (case map_of kvs ''agent_log_id'' of None \<Rightarrow> True | Some x \<Rightarrow> x = v)
      | _ \<Rightarrow> True)"

text \<open>Every request of the trace that carries an agent log id carries \<open>v\<close>.\<close>

definition sends_agent_log_id :: "json \<Rightarrow> event list \<Rightarrow> bool" where
  "sends_agent_log_id v evs = list_all (carries v) (json_bodies evs)"

lemma json_bodies_append [simp]: "json_bodies (xs @ ys) = json_bodies xs @ json_bodies ys"
  by (induction xs rule: json_bodies.induct) simp_all

lemma phoneLogout_sends:
  "sends_agent_log_id (agentLogId st) (snd (snd (phoneLogout cfg out st cid)))"
  by (simp add: phoneLogout_def Let_def sends_agent_log_id_def carries_def phoneLogout_body_def
        split: sum.splits)

lemma checkAutoIncoming_sends:
  "sends_agent_log_id (agentLogId st) (snd (snd (checkAutoIncoming out uid st cid dm)))"
  by (simp add: checkAutoIncoming_def sends_agent_log_id_def carries_def checkAutoIncoming_body_def)

lemma setDisposition_sends:
  "sends_agent_log_id (agentLogId st)
     (snd (snd (setDisposition env st cid leadId phoneCode phoneNumber status')))"
  by (simp add: setDisposition_events sends_agent_log_id_def carries_def setDisposition_body_def)

lemma changeAvailability_sends:
  "sends_agent_log_id (agentLogId st) (snd (snd (changeAvailability cfg env st cid code)))"
  unfolding changeAvailability_trace changeAvailability_events_def Let_def
  by (cases "axios instanceValidate (resume_out env)")
     (simp_all add: sends_agent_log_id_def carries_def)

lemma hangup_sends_own:
  "sends_agent_log_id (if truthy alid then alid else agentLogId st)
     (snd (snd (hangup out st cid callInfo d sid alid)))"
proof (cases "getprop callInfo ''phone_code''")
  case (Inl e)
  then show ?thesis by (simp add: hangup_def sends_agent_log_id_def)
next
  case (Inr x)
  then show ?thesis
    by (simp add: hangup_def Let_def sends_agent_log_id_def carries_def js_or_def
          split: sum.splits)
qed

lemma phoneLogin_sends:
  "sends_agent_log_id v (snd (snd (phoneLogin out st cid cname dm)))"
  by (simp add: phoneLogin_def Let_def sends_agent_log_id_def carries_def split: sum.splits)


lemma login_sends: "sends_agent_log_id v (snd (snd (login cfg env st user pass)))"
  by (simp add: login_def Let_def sends_agent_log_id_def split: sum.splits option.splits)

lemma sends_append [simp]:
  "sends_agent_log_id v (xs @ ys) = (sends_agent_log_id v xs \<and> sends_agent_log_id v ys)"
  by (simp add: sends_agent_log_id_def)

lemma sends_Nil [simp]: "sends_agent_log_id v []"
  by (simp add: sends_agent_log_id_def)

subsection \<open>Sequences of client calls\<close>

text \<open>
  One use of the client: a call of one of its methods, with its arguments and what the
  network answers to it, or one of the assignments the browser-driven controllers make
  to its fields (\<open>this.api.cookies = ...\<close>, and \<open>this.api.sessionId = ...\<close> together
  with \<open>this.api.agentLogId = ...\<close>). A sequence of uses works on one client, each
  starting from the fields the one before left. A method that throws leaves the client
  usable, so the sequence goes on after it.
\<close>

datatype client_call =
    CallLogin login_env string string
  | CallPhoneLogin http_outcome string string string
  | CallChangeAvailability avail_env string json
  | CallCheckAutoIncoming http_outcome string string string
  | CallHangup http_outcome string json nat json json
  | CallSetDisposition dispo_env string json json json string
  | CallPhoneLogout http_outcome string
  | AssignCookies "(string \<times> string option) list"
  | AssignSession json json

fun run_call :: "config \<Rightarrow> client_call \<Rightarrow> api \<Rightarrow> api \<times> event list" where
  "run_call cfg (CallLogin env user pass) st = snd (login cfg env st user pass)"
| "run_call cfg (CallPhoneLogin out cid cname dm) st = snd (phoneLogin out st cid cname dm)"
| "run_call cfg (CallChangeAvailability env cid code) st =
     snd (changeAvailability cfg env st cid code)"
| "run_call cfg (CallCheckAutoIncoming out uid cid dm) st =
     snd (checkAutoIncoming out uid st cid dm)"
| "run_call cfg (CallHangup out cid callInfo d sid alid) st =
     snd (hangup out st cid callInfo d sid alid)"
| "run_call cfg (CallSetDisposition env cid leadId phoneCode phoneNumber dispo) st =
     snd (setDisposition env st cid leadId phoneCode phoneNumber dispo)"
| "run_call cfg (CallPhoneLogout out cid) st = snd (phoneLogout cfg out st cid)"
| "run_call cfg (AssignCookies cs) st = (st\<lparr>cookies := cs\<rparr>, [])"
| "run_call cfg (AssignSession sid alid) st = (st\<lparr>sessionId := sid, agentLogId := alid\<rparr>, [])"

fun run_calls :: "config \<Rightarrow> client_call list \<Rightarrow> api \<Rightarrow> api \<times> event list" where
  "run_calls cfg [] st = (st, [])"
| "run_calls cfg (c # cs) st =
     (case run_call cfg c st of
        (st1, evs) \<Rightarrow> (case run_calls cfg cs st1 of (st2, evs2) \<Rightarrow> (st2, evs @ evs2)))"

text \<open>
  The agent log id in the answer to a \<open>setDisposition\<close> call, \<open>undefined\<close> when the
  answer has none.
\<close>

definition response_id :: "dispo_env \<Rightarrow> json" where
  "response_id env =
     (case dispo_out env of
        NoResponse _ \<Rightarrow> JUndefined
      | Response r \<Rightarrow> getprop_opt (getprop_opt (data r) ''data'') ''agentLogId'')"

text \<open>
  A use after which the stored id \<open>v\<close> is still stored: not a \<open>phoneLogin\<close>, not a
  \<open>setDisposition\<close> answered with another agent log id, and not the assignment of
  another id.
\<close>

fun keeps_id :: "json \<Rightarrow> client_call \<Rightarrow> bool" where
  "keeps_id v (CallPhoneLogin _ _ _ _) = False"
| "keeps_id v (CallSetDisposition env _ _ _ _ _) =
     (\<not> truthy (response_id env) \<or> response_id env = v)"
| "keeps_id v (AssignSession sid alid) = (alid = v)"
| "keeps_id v _ = True"

text \<open>
  The agent log id a call sends when \<open>v\<close> is stored: \<open>hangup\<close> sends the id its caller
  passes when that is truthy, every other request sends the stored one.
\<close>

fun sent_id :: "json \<Rightarrow> client_call \<Rightarrow> json" where
  "sent_id v (CallHangup _ _ _ _ _ alid) = (if truthy alid then alid else v)"
| "sent_id v _ = v"

lemma store_cookie_agentLogId [simp]: "agentLogId (store_cookie st h) = agentLogId st"
  by (simp add: store_cookie_def)

lemma foldl_store_cookie_agentLogId [simp]: "agentLogId (foldl store_cookie st hs) = agentLogId st"
  by (induction hs arbitrary: st) simp_all

lemma extractCookies_agentLogId [simp]: "agentLogId (extractCookies st r) = agentLogId st"
  by (simp add: extractCookies_foldl)

lemma login_agentLogId: "agentLogId (fst (snd (login cfg env st user pass))) = agentLogId st"
  by (simp add: login_def Let_def split: sum.splits option.splits)

lemma changeAvailability_agentLogId:
  "agentLogId (fst (snd (changeAvailability cfg env st cid code))) = agentLogId st"
  by (simp add: changeAvailability_def Let_def split: sum.splits)

lemma hangup_client: "fst (snd (hangup out st cid callInfo d sid alid)) = st"
  by (simp add: hangup_def Let_def split: sum.splits)

lemma phoneLogout_client: "fst (snd (phoneLogout cfg out st cid)) = st"
  by (simp add: phoneLogout_def Let_def split: sum.splits)

lemma setDisposition_agentLogId:
  "\<not> truthy (response_id env) \<or> response_id env = agentLogId st \<Longrightarrow>
   agentLogId (fst (snd (setDisposition env st cid leadId phoneCode phoneNumber dispo))) = agentLogId st"
  by (auto simp add: setDisposition_def response_id_def Let_def axios_def
        split: sum.splits http_outcome.splits)

lemma run_call_keeps:
  "keeps_id (agentLogId st) c \<Longrightarrow> agentLogId (fst (run_call cfg c st)) = agentLogId st"
proof (cases c)
  case (CallSetDisposition env cid leadId phoneCode phoneNumber dispo)
  assume "keeps_id (agentLogId st) c"
  then show ?thesis
    using setDisposition_agentLogId[of env st cid leadId phoneCode phoneNumber dispo]
    by (simp add: CallSetDisposition)
qed (simp_all add: login_agentLogId changeAvailability_agentLogId hangup_client
       phoneLogout_client checkAutoIncoming_def)

lemma run_call_sends:
  "sends_agent_log_id (sent_id (agentLogId st) c) (snd (run_call cfg c st))"
  by (cases c)
     (simp_all add: login_sends phoneLogin_sends changeAvailability_sends checkAutoIncoming_sends
        hangup_sends_own setDisposition_sends phoneLogout_sends)

lemma run_calls_keeps:
  "list_all (keeps_id (agentLogId st)) cs \<Longrightarrow> agentLogId (fst (run_calls cfg cs st)) = agentLogId st"
proof (induction cs arbitrary: st)
  case Nil
  show ?case by simp
next
  case (Cons c cs)
  obtain st1 evs where r: "run_call cfg c st = (st1, evs)" by (cases "run_call cfg c st")
  have k: "agentLogId st1 = agentLogId st" using run_call_keeps[of st c cfg] Cons.prems r by simp
  have "agentLogId (fst (run_calls cfg cs st1)) = agentLogId st1"
    using Cons.IH[of st1] Cons.prems k by simp
  then show ?case using r k by (auto split: prod.splits)
qed

lemma run_calls_sends:
  "list_all (keeps_id (agentLogId st)) cs \<Longrightarrow>
   list_all (\<lambda>c. sent_id (agentLogId st) c = agentLogId st) cs \<Longrightarrow>
   sends_agent_log_id (agentLogId st) (snd (run_calls cfg cs st))"
proof (induction cs arbitrary: st)
  case Nil
  show ?case by simp
next
  case (Cons c cs)
  obtain st1 evs where r: "run_call cfg c st = (st1, evs)" by (cases "run_call cfg c st")
  have k: "agentLogId st1 = agentLogId st" using run_call_keeps[of st c cfg] Cons.prems r by simp
  have s: "sends_agent_log_id (agentLogId st) evs"
    using run_call_sends[of st c cfg] Cons.prems r by simp
  have "sends_agent_log_id (agentLogId st1) (snd (run_calls cfg cs st1))"
    using Cons.IH[of st1] Cons.prems k by simp
  then show ?case using r k s by (auto split: prod.splits)
qed

section \<open>Claims about the REST client\<close>

text \<open>
  Claim C4 (resume before available). Whatever the network answers, the requests
  \<open>changeAvailability\<close> issues are the resume request followed by the
  availability-change request when the code is the configured ready code, and the
  availability-change request alone for every other code. The answer to the resume
  request (a failure included) changes neither that sequence nor the result.
\<close>

theorem changeAvailability_resume_first:
  "request_urls (snd (snd (changeAvailability cfg env st cid code))) =
     (if code = JStr (availabilityReady cfg)
      then [ep_resume, ep_availabilityChange]
      else [ep_availabilityChange]) \<and>
   request_urls (snd (snd (changeAvailability cfg (env\<lparr>resume_out := NoResponse m\<rparr>) st cid code))) =
     request_urls (snd (snd (changeAvailability cfg env st cid code))) \<and>
   fst (changeAvailability cfg (env\<lparr>resume_out := r\<rparr>) st cid code) =
     fst (changeAvailability cfg env st cid code)"
  by (simp add: changeAvailability_trace changeAvailability_urls changeAvailability_result)

text \<open>
  Claim C5 (login cookie accumulation) on the code. Take a chain of depth 2: the
  credential POST answers 302 with a location, the GET of that location answers 302
  with a location again, and the GET of the second target gets an answer with a status
  below 400 that is not a redirect to follow. Then \<open>login\<close> returns \<open>true\<close>, and of the
  \<open>set-cookie\<close> headers of the three responses every cookie is in the jar under its
  name, with the value of the last header that set it (as \<open>extractCookies\<close> reads name
  and value: the text before the first \<open>=\<close>, and the text between the first and the
  second \<open>=\<close>, of the part before the first \<open>;\<close>), except a cookie named
  \<open>__proto__\<close>: the jar is a plain object, the assignment does not create a property,
  and a jar that did not have that key before does not have it afterwards. So the claim
  holds for every cookie name but that one.
\<close>

theorem login_accumulates_cookies:
  assumes "login_post env = Response r0" "status r0 = 302" "location r0 = Some l0" "l0 \<noteq> []"
    and "login_redirect1 env l0 = Response r1" "status r1 = 302" "location r1 = Some l1" "l1 \<noteq> []"
    and "login_redirect2 env (finalUrl l1) 0 = Response r2" "\<not> redirects r2" "status r2 < 400"
  shows "fst (login cfg env st0 user pass) = Inr True \<and>
         (\<forall>h \<in> set (headers_of r0) \<union> set (headers_of r1) \<union> set (headers_of r2).
             cookie_name h \<noteq> ''__proto__'' \<longrightarrow>
             cookie_name h \<in> fst ` set (cookies (fst (snd (login cfg env st0 user pass))))) \<and>
         (\<forall>hs h hs'. headers_of r0 @ headers_of r1 @ headers_of r2 = hs @ h # hs' \<and>
             cookie_name h \<notin> cookie_name ` set hs' \<and> cookie_name h \<noteq> ''__proto__'' \<longrightarrow>
             map_of (cookies (fst (snd (login cfg env st0 user pass)))) (cookie_name h) =
               Some (cookie_value h)) \<and>
         (''__proto__'' \<notin> fst ` set (cookies st0) \<longrightarrow>
             ''__proto__'' \<notin> fst ` set (cookies (fst (snd (login cfg env st0 user pass)))))"
proof -
  note st = login_depth2_state[OF assms]
  have keys: "\<forall>h \<in> set (headers_of r0) \<union> set (headers_of r1) \<union> set (headers_of r2).
             cookie_name h \<noteq> ''__proto__'' \<longrightarrow>
             cookie_name h \<in> fst ` set (cookies (fst (snd (login cfg env st0 user pass))))"
    unfolding st foldl_store_cookie_keys by auto
  have vals: "\<forall>hs h hs'. headers_of r0 @ headers_of r1 @ headers_of r2 = hs @ h # hs' \<and>
             cookie_name h \<notin> cookie_name ` set hs' \<and> cookie_name h \<noteq> ''__proto__'' \<longrightarrow>
             map_of (cookies (fst (snd (login cfg env st0 user pass)))) (cookie_name h) =
               Some (cookie_value h)"
    unfolding st by (metis foldl_store_cookie_last)
  have proto: "''__proto__'' \<notin> fst ` set (cookies st0) \<longrightarrow>
             ''__proto__'' \<notin> fst ` set (cookies (fst (snd (login cfg env st0 user pass))))"
    unfolding st foldl_store_cookie_keys using login_start_proto[of cfg st0] by auto
  from st(1) keys vals proto show ?thesis by blast
qed

text \<open>
  A chain of depth 2 in which the first response also sets a cookie named \<open>__proto__\<close>
  and the last response sets the session cookie a second time.
\<close>

definition demo_login_env :: login_env where
  "demo_login_env =
     \<lparr>login_post = Response \<lparr>status = 302, location = Some ''https://agent.convoso.com/verify'',
                              set_cookie = Some [''PROJECTXSESS=abc; Path=/; HttpOnly'',
                                                 ''__proto__=x; Path=/''],
                              data = JStr []\<rparr>,
      login_redirect1 = (\<lambda>url.
         if url = ''https://agent.convoso.com/verify''
         then Response \<lparr>status = 302, location = Some ''/'',
                         set_cookie = Some [''ACCOUNT_ID=77; Path=/''], data = JStr []\<rparr>
         else NoResponse ''Invalid URL''),
      login_redirect2 = (\<lambda>url k.
         if url = ''https://agent-dt.convoso.com/'' \<and> k = 0
         then Response \<lparr>status = 200, location = None,
                         set_cookie = Some [''CLUSTER=dt; Path=/'', ''PROJECTXSESS=def; Path=/''],
                         data = JStr []\<rparr>
         else NoResponse ''Invalid URL'')\<rparr>"

theorem login_accumulates_cookies_witness:
  "fst (login default_config demo_login_env api_init ''agent'' ''secret'') = Inr True \<and>
   cookies (fst (snd (login default_config demo_login_env api_init ''agent'' ''secret''))) =
     [(''PROJECTXSESS'', Some ''def''), (''ACCOUNT_ID'', Some ''77''), (''CLUSTER'', Some ''dt'')] \<and>
   ''__proto__'' \<notin> fst ` set (cookies (fst (snd
       (login default_config demo_login_env api_init ''agent'' ''secret''))))"
proof -
  let ?r0 = "\<lparr>status = 302, location = Some ''https://agent.convoso.com/verify'',
               set_cookie = Some [''PROJECTXSESS=abc; Path=/; HttpOnly'', ''__proto__=x; Path=/''],
               data = JStr []\<rparr>"
  let ?r1 = "\<lparr>status = 302, location = Some ''/'',
               set_cookie = Some [''ACCOUNT_ID=77; Path=/''], data = JStr []\<rparr>"
  let ?r2 = "\<lparr>status = 200, location = None,
               set_cookie = Some [''CLUSTER=dt; Path=/'', ''PROJECTXSESS=def; Path=/''],
               data = JStr []\<rparr>"
  have h1: "login_post demo_login_env = Response ?r0" by (simp add: demo_login_env_def)
  have h2: "status ?r0 = 302" by simp
  have h3: "location ?r0 = Some ''https://agent.convoso.com/verify''" by simp
  have h4: "''https://agent.convoso.com/verify'' \<noteq> []" by simp
  have h5: "login_redirect1 demo_login_env ''https://agent.convoso.com/verify'' = Response ?r1"
    by (simp add: demo_login_env_def)
  have h6: "status ?r1 = 302" by simp
  have h7: "location ?r1 = Some ''/''" by simp
  have h8: "''/'' \<noteq> []" by simp
  have h9: "login_redirect2 demo_login_env (finalUrl ''/'') 0 = Response ?r2"
    by (simp add: demo_login_env_def finalUrl_def startsWith_def)
  have h10: "\<not> redirects ?r2" by (simp add: redirects_def)
  have h11: "status ?r2 < 400" by simp
  note t = login_accumulates_cookies[OF h1 h2 h3 h4 h5 h6 h7 h8 h9 h10 h11,
      where cfg = default_config and ?st0.0 = api_init and user = "''agent''" and pass = "''secret''"]
  have jar: "cookies (fst (snd (login default_config demo_login_env api_init ''agent'' ''secret''))) =
     [(''PROJECTXSESS'', Some ''def''), (''ACCOUNT_ID'', Some ''77''), (''CLUSTER'', Some ''dt'')]"
    unfolding login_depth2_state(2)[OF h1 h2 h3 h4 h5 h6 h7 h8 h9 h10 h11]
    by (simp add: login_start_def default_config_def api_init_def headers_of_def store_cookie_def
          obj_set_def cookie_name_def cookie_value_def)
  from t jar show ?thesis by (simp add: api_init_def)
qed

definition demo_dispo_env :: dispo_env where
  "demo_dispo_env =
     \<lparr>dispo_out = Response \<lparr>status = 200, location = None, set_cookie = None,
         data = JObj [(''success'', JBool True), (''data'', JObj [(''agentLogId'', JStr ''9'')])]\<rparr>,
      dispo_date = ''2025-10-03''\<rparr>"

definition demo_api :: api where
  "demo_api = \<lparr>cookies = [(''PROJECTXSESS'', Some ''abc'')], sessionId = JStr ''s1'',
                agentLogId = JStr ''7'', userId = JNull\<rparr>"

definition demo_callInfo :: json where
  "demo_callInfo = JObj [(''lead_id'', JNum 42), (''phone_code'', JStr ''1''),
                         (''phone_number'', JStr ''5551234567'')]"

lemma demo_rotation:
  "setDisposition demo_dispo_env demo_api ''1173'' (JNum 42) (JStr ''1'') (JStr ''5551234567'')
     ''NOCONT'' =
   (Inr (JObj [(''success'', JBool True), (''data'', JObj [(''agentLogId'', JStr ''9'')])]),
    demo_api\<lparr>agentLogId := JStr ''9''\<rparr>,
    [Request PUT ep_leadDisposition
       (Json (setDisposition_body demo_api ''2025-10-03'' ''1173'' (JNum 42) (JStr ''1'')
          (JStr ''5551234567'') ''NOCONT''))
       (cookieString demo_api)])"
  by (simp add: setDisposition_def demo_dispo_env_def axios_def instanceValidate_def
        extractCookies_def getprop_opt_def Let_def)

text \<open>
  Claim C6 as stated (every later request that carries an agent log id sends the
  rotated one) fails for \<open>hangup\<close>, which sends the id its caller passes when there is
  one, as the REST hangup of \<open>PuppeteerAgent.handleCall\<close> does with the id it reads
  from the page. After a rotation from \<open>"7"\<close> to \<open>"9"\<close>, a hangup called with the id
  \<open>"7"\<close> sends \<open>"7"\<close>.
\<close>

theorem hangup_sends_callers_id:
  "agentLogId (fst (snd (setDisposition demo_dispo_env demo_api ''1173'' (JNum 42) (JStr ''1'')
       (JStr ''5551234567'') ''NOCONT''))) = JStr ''9'' \<and>
   map (\<lambda>b. getprop b ''agent_log_id'')
     (json_bodies (snd (snd (hangup (NoResponse ''Network Error'')
        (fst (snd (setDisposition demo_dispo_env demo_api ''1173'' (JNum 42) (JStr ''1'')
           (JStr ''5551234567'') ''NOCONT'')))
        ''1173'' demo_callInfo 15004 (JStr ''s1'') (JStr ''7''))))) = [Inr (JStr ''7'')] \<and>
   \<not> sends_agent_log_id (JStr ''9'')
       (snd (snd (hangup (NoResponse ''Network Error'')
          (fst (snd (setDisposition demo_dispo_env demo_api ''1173'' (JNum 42) (JStr ''1'')
             (JStr ''5551234567'') ''NOCONT'')))
          ''1173'' demo_callInfo 15004 (JStr ''s1'') (JStr ''7''))))"
  by (simp add: demo_rotation hangup_def demo_callInfo_def js_or_def sends_agent_log_id_def
        carries_def axios_def Let_def)

text \<open>
  Claim C6, amended. When \<open>setDisposition\<close> receives a response with a status below 400
  whose body reports success and carries a truthy \<open>data.agentLogId\<close> \<open>v\<close> (such as
  \<open>"9"\<close>), the call resolves and \<open>v\<close> is the stored \<open>agentLogId\<close> afterwards. It stays
  stored through every sequence of later uses of the client in which \<open>phoneLogin\<close> is
  not called, no \<open>setDisposition\<close> is answered with another agent log id and the
  controller assigns no other id to the field. Each call of
  such a sequence sends \<open>v\<close> in every request body that has an \<open>agent_log_id\<close>, except
  that a \<open>hangup\<close> given a truthy id by its caller sends that id; so a sequence without
  such a hangup sends \<open>v\<close> throughout. After the sequence \<open>phoneLogout\<close> and
  \<open>checkAutoIncoming\<close> send exactly one request each, with \<open>v\<close> as \<open>agent_log_id\<close>, and
  the body of a \<open>setDisposition\<close> has it too.
\<close>

theorem setDisposition_rotates_agentLogId:
  assumes "dispo_out env = Response r" "status r < 400"
    and "getprop (data r) ''success'' = Inr ok" "truthy ok"
    and "getprop_opt (getprop_opt (data r) ''data'') ''agentLogId'' = v" "truthy v"
    and "st' = fst (snd (setDisposition env st cid leadId phoneCode phoneNumber dispo))"
    and "list_all (keeps_id v) calls"
    and "st2 = fst (run_calls cfg calls st')"
  shows "fst (setDisposition env st cid leadId phoneCode phoneNumber dispo) = Inr (data r) \<and>
         agentLogId st' = v \<and>
         agentLogId st2 = v \<and>
         (\<forall>pre c post. calls = pre @ c # post \<longrightarrow>
            sends_agent_log_id (sent_id v c)
              (snd (run_call cfg c (fst (run_calls cfg pre st'))))) \<and>
         (list_all (\<lambda>c. sent_id v c = v) calls \<longrightarrow>
            sends_agent_log_id v (snd (run_calls cfg calls st'))) \<and>
         snd (snd (phoneLogout cfg out1 st2 cid2)) =
           [Request POST ep_phoneLogout (Json (phoneLogout_body cfg st2 cid2)) (cookieString st2)] \<and>
         getprop (phoneLogout_body cfg st2 cid2) ''agent_log_id'' = Inr v \<and>
         snd (snd (checkAutoIncoming out2 uid st2 cid2 dm)) =
           [Request POST ep_checkAutoIncoming (Json (checkAutoIncoming_body st2 cid2 dm uid))
              (cookieString st2)] \<and>
         getprop (checkAutoIncoming_body st2 cid2 dm uid) ''agent_log_id'' = Inr v \<and>
         getprop (setDisposition_body st2 date cid2 leadId2 phoneCode2 phoneNumber2 dispo2)
           ''agent_log_id'' = Inr v"
proof -
  have ag: "agentLogId st' = v"
    using assms(1-7)
    by (simp add: setDisposition_def Let_def axios_def instanceValidate_def)
  have res: "fst (setDisposition env st cid leadId phoneCode phoneNumber dispo) = Inr (data r)"
    using assms(1-7) by (simp add: setDisposition_def Let_def axios_def instanceValidate_def)
  have keeps: "list_all (keeps_id (agentLogId st')) calls" using assms(8) ag by simp
  have ag2: "agentLogId st2 = v"
    using run_calls_keeps[OF keeps, of cfg] assms(9) ag by simp
  have each: "\<forall>pre c post. calls = pre @ c # post \<longrightarrow>
            sends_agent_log_id (sent_id v c)
              (snd (run_call cfg c (fst (run_calls cfg pre st'))))"
  proof (intro allI impI)
    fix pre c post
    assume split: "calls = pre @ c # post"
    have "list_all (keeps_id (agentLogId st')) pre" using keeps split by simp
    then have "agentLogId (fst (run_calls cfg pre st')) = v"
      using run_calls_keeps[of st' pre cfg] ag by simp
    then show "sends_agent_log_id (sent_id v c) (snd (run_call cfg c (fst (run_calls cfg pre st'))))"
      using run_call_sends[of "fst (run_calls cfg pre st')" c cfg] by simp
  qed
  have whole: "list_all (\<lambda>c. sent_id v c = v) calls \<longrightarrow>
            sends_agent_log_id v (snd (run_calls cfg calls st'))"
    using run_calls_sends[OF keeps, of cfg] ag by simp
  have lo: "snd (snd (phoneLogout cfg out1 st2 cid2)) =
           [Request POST ep_phoneLogout (Json (phoneLogout_body cfg st2 cid2)) (cookieString st2)]"
    by (simp add: phoneLogout_def Let_def split: sum.splits)
  have ci: "snd (snd (checkAutoIncoming out2 uid st2 cid2 dm)) =
           [Request POST ep_checkAutoIncoming (Json (checkAutoIncoming_body st2 cid2 dm uid))
              (cookieString st2)]"
    by (simp add: checkAutoIncoming_def)
  have bodies: "getprop (phoneLogout_body cfg st2 cid2) ''agent_log_id'' = Inr v"
    "getprop (checkAutoIncoming_body st2 cid2 dm uid) ''agent_log_id'' = Inr v"
    "getprop (setDisposition_body st2 date cid2 leadId2 phoneCode2 phoneNumber2 dispo2)
           ''agent_log_id'' = Inr v"
    using ag2
    by (simp_all add: phoneLogout_body_def checkAutoIncoming_body_def setDisposition_body_def)
  show ?thesis
    apply (intro conjI)
    apply (rule res)
    apply (rule ag)
    apply (rule ag2)
    apply (rule each)
    apply (rule whole)
    apply (rule lo)
    apply (rule bodies(1))
    apply (rule ci)
    apply (rule bodies(2))
    apply (rule bodies(3))
    done
qed

text \<open>
  After the rotation of the sample client from \<open>"7"\<close> to \<open>"9"\<close>: a poll, a hangup
  without an id of the caller's, a disposition answered without an agent log id, new
  cookies from the page, and a change of availability.
\<close>

definition demo_calls :: "client_call list" where
  "demo_calls =
     [CallCheckAutoIncoming (NoResponse ''Network Error'') ''u-1'' ''1173'' ''RATIO'',
      CallHangup (NoResponse ''Network Error'') ''1173'' demo_callInfo 15004 JNull JNull,
      CallSetDisposition
        \<lparr>dispo_out = Response \<lparr>status = 200, location = None, set_cookie = None,
                                data = JObj [(''success'', JBool True)]\<rparr>,
         dispo_date = ''2025-10-03''\<rparr>
        ''1173'' (JNum 43) (JStr ''1'') (JStr ''5551234568'') ''NOCONT'',
      AssignCookies [(''PROJECTXSESS'', Some ''xyz'')],
      CallChangeAvailability
        \<lparr>resume_out = NoResponse ''Network Error'', avail_out = NoResponse ''Network Error'',
         avail_uid = ''u-2''\<rparr>
        ''1173'' (JStr ''2'')]"

theorem setDisposition_rotates_agentLogId_witness:
  "agentLogId (fst (snd (setDisposition demo_dispo_env demo_api ''1173'' (JNum 42) (JStr ''1'')
       (JStr ''5551234567'') ''NOCONT''))) = JStr ''9'' \<and>
   agentLogId (fst (run_calls default_config demo_calls
       (fst (snd (setDisposition demo_dispo_env demo_api ''1173'' (JNum 42) (JStr ''1'')
          (JStr ''5551234567'') ''NOCONT''))))) = JStr ''9'' \<and>
   sends_agent_log_id (JStr ''9'') (snd (run_calls default_config demo_calls
       (fst (snd (setDisposition demo_dispo_env demo_api ''1173'' (JNum 42) (JStr ''1'')
          (JStr ''5551234567'') ''NOCONT''))))) \<and>
   getprop (phoneLogout_body default_config
       (fst (run_calls default_config demo_calls
          (fst (snd (setDisposition demo_dispo_env demo_api ''1173'' (JNum 42) (JStr ''1'')
             (JStr ''5551234567'') ''NOCONT''))))) ''1173'') ''agent_log_id'' = Inr (JStr ''9'')"
proof -
  let ?r = "\<lparr>status = 200, location = None, set_cookie = None,
         data = JObj [(''success'', JBool True), (''data'', JObj [(''agentLogId'', JStr ''9'')])]\<rparr>"
  have h1: "dispo_out demo_dispo_env = Response ?r" by (simp add: demo_dispo_env_def)
  have h2: "status ?r < 400" by simp
  have h3: "getprop (data ?r) ''success'' = Inr (JBool True)" by simp
  have h4: "truthy (JBool True)" by simp
  have h5: "getprop_opt (getprop_opt (data ?r) ''data'') ''agentLogId'' = JStr ''9''"
    by (simp add: getprop_opt_def)
  have h6: "truthy (JStr ''9'')" by simp
  have h8: "list_all (keeps_id (JStr ''9'')) demo_calls"
    by (simp add: demo_calls_def response_id_def getprop_opt_def)
  have h9: "list_all (\<lambda>c. sent_id (JStr ''9'') c = JStr ''9'') demo_calls"
    by (simp add: demo_calls_def)
  note t = setDisposition_rotates_agentLogId[OF h1 h2 h3 h4 h5 h6 refl h8 refl,
      where cfg = default_config and ?cid2.0 = "''1173''"]
  note c2 = t[THEN conjunct2, THEN conjunct1]
  note c3 = t[THEN conjunct2, THEN conjunct2, THEN conjunct1]
  note c5 = t[THEN conjunct2, THEN conjunct2, THEN conjunct2, THEN conjunct2, THEN conjunct1,
      THEN mp, OF h9]
  note c7 = t[THEN conjunct2, THEN conjunct2, THEN conjunct2, THEN conjunct2, THEN conjunct2,
      THEN conjunct2, THEN conjunct1]
  from c2 c3 c5 c7 show ?thesis by (intro conjI)
qed

text \<open>
  Claim C7 as stated (every status axios accepts counts as a successful logout) fails:
  a 302 answer without a success flag passes \<open>validateStatus\<close> and \<open>phoneLogout\<close>
  still throws.
\<close>

theorem phoneLogout_accepted_status_throws:
  "instanceValidate 302 \<and>
   fst (phoneLogout default_config
          (Response \<lparr>status = 302, location = Some ''/login'', set_cookie = None, data = JStr []\<rparr>)
          api_init ''1173'') = Inl (Error ''Phone logout failed'')"
  by (simp add: phoneLogout_def axios_def instanceValidate_def)

text \<open>
  Claim C7, amended. \<open>phoneLogout\<close> returns normally exactly when a response arrives
  with a status below 400 whose body can be read and either reports success or comes
  with status 200. In particular status 200 needs no success flag, while an accepted
  status other than 200 without the flag throws, as do statuses from 400 on and a
  missing response.
\<close>

theorem phoneLogout_succeeds_iff:
  "(\<exists>v. fst (phoneLogout cfg out st cid) = Inr v) =
   (\<exists>r ok. out = Response r \<and> status r < 400 \<and> getprop (data r) ''success'' = Inr ok \<and>
            (truthy ok \<or> status r = 200))"
  by (auto simp add: phoneLogout_def axios_def instanceValidate_def Let_def
        split: sum.splits http_outcome.splits if_splits)


section \<open>CallLogMerger: phone normalisation\<close>

text \<open>
  A string is a list of characters with codes from 0 to 255. \<open>trim()\<close> removes white
  space and line terminators at both ends; among these characters they are tab, line
  feed, vertical tab, form feed, carriage return, space and the no-break space
  \<open>U+00A0\<close>. \<open>\D\<close> is every character that is not one of the ten digits.
\<close>

definition is_space :: "char \<Rightarrow> bool" where
  "is_space c =
     (c \<in> set [CHR 0x09, CHR 0x0A, CHR 0x0B, CHR 0x0C, CHR 0x0D, CHR '' '', CHR 0xA0])"

definition trim :: "string \<Rightarrow> string" where
  "trim s = rev (dropWhile is_space (rev (dropWhile is_space s)))"

text \<open>
  \<open>normalizePhone(phone)\<close>; \<open>None\<close> is an absent (\<open>undefined\<close> or \<open>null\<close>) argument,
  which like the empty string is falsy.
\<close>

definition normalizePhone :: "string option \<Rightarrow> string" where
  "normalizePhone phone =
     (case phone of
        None \<Rightarrow> []
      | Some p \<Rightarrow>
          if p = [] then []
          else
            (let trimmed = trim p;
                 normalized = (if startsWith trimmed ''+7'' then ''+1'' @ drop 2 trimmed else trimmed)
             in if startsWith normalized ''+''
                then ''+'' @ filter is_digit (drop 1 normalized)
                else
                  (let digits = filter is_digit normalized
                   in if length digits = 10 then ''+1'' @ digits
                      else if length digits = 11 \<and> startsWith digits ''1'' then ''+'' @ digits
                      else digits)))"

text \<open>
  Claim C10 on the code. A number written with a space between the plus sign and the
  country code 7 does not start with \<open>+7\<close> when the fix is applied, and starts with
  \<open>+7\<close> once the non-digits are removed: the output starts with \<open>+7\<close> and
  normalising it again changes it. Absent and empty input do normalise to the empty
  string.
\<close>

theorem normalizePhone_not_idempotent:
  "normalizePhone (Some ''+ 7 912 345 67 89'') = ''+79123456789'' \<and>
   normalizePhone (Some (normalizePhone (Some ''+ 7 912 345 67 89''))) = ''+19123456789'' \<and>
   normalizePhone None = [] \<and> normalizePhone (Some []) = []"
  by (simp add: normalizePhone_def trim_def is_space_def is_digit_def startsWith_def)


section \<open>PuppeteerAgent: the browser-driven controller\<close>

text \<open>
  The controller's fields (\<open>lastCallLogId\<close> exists in \<open>previousPuppeteerAgent.js\<close>
  only) and its REST client \<open>this.api\<close>.
\<close>

record agent =
  isRunning :: bool
  callCount :: nat
  inCall :: bool
  lastLeadId :: json
  lastCallLogId :: json
  client :: api

definition agent_started :: agent where
  "agent_started =
     \<lparr>isRunning = True, callCount = 0, inCall = False, lastLeadId = JNull,
      lastCallLogId = JNull, client = api_init\<rparr>"

text \<open>
  What the page and the network answer during one \<open>handleCall\<close>: the result of each
  \<open>page.evaluate\<close> that looks for a control and clicks it (\<open>true\<close> when it was found
  and clicked), the session identifiers read from the page, the page's cookies, and the
  answers to the REST fallbacks.
\<close>

record call_env =
  wrapupClicked :: "bool outcome"
  retryWrapup :: "bool outcome"
  modalWrapup :: "bool outcome"
  hangupSessionInfo :: "(json \<times> json) outcome"
  actualDuration :: nat
  hangup_out :: http_outcome
  dispositionClicked :: "bool outcome"
  dispositionPanelOpened :: "bool outcome"
  dispositionSet :: "bool outcome"
  pageCookies :: "(string \<times> string) list outcome"
  dispoSessionInfo :: "(json \<times> json) outcome"
  dispoApi :: dispo_env

text \<open>\<open>cookies.forEach(cookie => { cookieObj[cookie.name] = cookie.value })\<close>.\<close>

definition cookieObj :: "(string \<times> string) list \<Rightarrow> (string \<times> string option) list" where
  "cookieObj cs = foldl (\<lambda>obj (name, val). obj_set obj name (Some val)) [] cs"

text \<open>
  \<open>setDispositionViaAPI\<close> (the REST fallback): read the page's cookies, which is the
  first thing it does and is done nowhere else while a call is handled, then the
  session identifiers, and call \<open>setDisposition\<close> once. Its \<open>catch\<close> logs and returns,
  so it never rejects, and a failure to read the page means that no request is sent.
\<close>

definition setDispositionViaAPI :: "config \<Rightarrow> call_env \<Rightarrow> api \<Rightarrow> json \<Rightarrow> api \<times> event list" where
  "setDispositionViaAPI cfg env c callInfo =
     (case pageCookies env of
        Rejects \<Rightarrow> (c, [PageCookies, Err ''API disposition failed''])
      | Resolves cs \<Rightarrow>
          (let c1 = c\<lparr>cookies := cookieObj cs\<rparr>
           in case dispoSessionInfo env of
                Rejects \<Rightarrow> (c1, [PageCookies, Err ''API disposition failed''])
              | Resolves (sid, alid) \<Rightarrow>
                  (case setDisposition (dispoApi env) (c1\<lparr>sessionId := sid, agentLogId := alid\<rparr>)
                          (campaignId cfg) (getprop_opt callInfo ''lead_id'')
                          (getprop_opt callInfo ''phone_code'')
                          (getprop_opt callInfo ''phone_number'') (dispositionStatus cfg) of
                     (Inl e, c2, evs) \<Rightarrow> (c2, PageCookies # evs @ [Err ''API disposition failed''])
                   | (Inr _, c2, evs) \<Rightarrow> (c2, PageCookies # evs @ [Info ''Disposition set via API'']))))"

text \<open>
  Step 1 of \<open>handleCall\<close>, ending the call: click WRAPUP; if it is not found wait 3 s
  and try again, then try the Wrapup button of the modal, then fall back to the REST
  hangup with the session identifiers read from the page.
\<close>

definition endCall_step :: "config \<Rightarrow> call_env \<Rightarrow> api \<Rightarrow> json \<Rightarrow> (error + unit) \<times> api \<times> event list" where
  "endCall_step cfg env c callInfo =
     (case wrapupClicked env of
        Rejects \<Rightarrow> (Inl PageError, c, [])
      | Resolves True \<Rightarrow> (Inr (), c, [Click WrapupButton])
      | Resolves False \<Rightarrow>
          (let ev1 = [Warn ''WRAPUP button not found - waiting for voicemail detection...'',
                      Sleep 3000]
           in case retryWrapup env of
                Rejects \<Rightarrow> (Inl PageError, c, ev1)
              | Resolves True \<Rightarrow> (Inr (), c, ev1 @ [Click WrapupButton])
              | Resolves False \<Rightarrow>
                  (let ev2 = ev1 @ [Warn ''Still cannot find WRAPUP button'']
                   in case modalWrapup env of
                        Rejects \<Rightarrow> (Inl PageError, c, ev2)
                      | Resolves True \<Rightarrow> (Inr (), c, ev2 @ [Click WrapupModalButton])
                      | Resolves False \<Rightarrow>
                          (let ev3 = ev2 @ [Err ''Could not find WRAPUP button anywhere, using API hangup...'']
                           in case hangupSessionInfo env of
                                Rejects \<Rightarrow> (Inl PageError, c, ev3)
                              | Resolves (sid, alid) \<Rightarrow>
                                  (case hangup (hangup_out env) c (campaignId cfg) callInfo
                                          (actualDuration env) sid alid of
                                     (Inl e, c1, evs) \<Rightarrow> (Inl e, c1, ev3 @ evs)
                                   | (Inr _, c1, evs) \<Rightarrow> (Inr (), c1, ev3 @ evs))))))"

text \<open>
  Step 2 of \<open>handleCall\<close>, the disposition ladder: click the disposition status button;
  if it is not found open the disposition panel and try again; if the panel cannot be
  opened or the button is still not found, call \<open>setDispositionViaAPI\<close>.
\<close>

definition disposition_step :: "config \<Rightarrow> call_env \<Rightarrow> api \<Rightarrow> json \<Rightarrow> (error + unit) \<times> api \<times> event list" where
  "disposition_step cfg env c callInfo =
     (case dispositionClicked env of
        Rejects \<Rightarrow> (Inl PageError, c, [])
      | Resolves True \<Rightarrow> (Inr (), c, [Click DispositionStatusButton])
      | Resolves False \<Rightarrow>
          (let ev1 = [Warn ''Disposition button not found in main view'']
           in case dispositionPanelOpened env of
                Rejects \<Rightarrow> (Inl PageError, c, ev1)
              | Resolves True \<Rightarrow>
                  (let ev2 = ev1 @ [Click DispositionPanelButton, Sleep 1500]
                   in case dispositionSet env of
                        Rejects \<Rightarrow> (Inl PageError, c, ev2)
                      | Resolves True \<Rightarrow> (Inr (), c, ev2 @ [Click DispositionStatusButton])
                      | Resolves False \<Rightarrow>
                          (case setDispositionViaAPI cfg env c callInfo of
                             (c1, evs) \<Rightarrow>
                               (Inr (), c1,
                                ev2 @ [Warn ''Still cannot find disposition, using API...''] @ evs)))
              | Resolves False \<Rightarrow>
                  (case setDispositionViaAPI cfg env c callInfo of
                     (c1, evs) \<Rightarrow>
                       (Inr (), c1,
                        ev1 @ [Warn ''Could not open disposition panel, using API...''] @ evs))))"

text \<open>
  \<open>handleCall\<close>: the counter goes up before the \<open>try\<close>; inside it the call is held for
  the configured duration, ended, and dispositioned. Both the normal end and the
  \<open>catch\<close> reset \<open>lastLeadId\<close> to \<open>null\<close>; the \<open>catch\<close> swallows the error.
\<close>

definition handleCall :: "config \<Rightarrow> call_env \<Rightarrow> agent \<Rightarrow> json \<Rightarrow> agent \<times> event list" where
  "handleCall cfg env st callInfo =
     (let st1 = st\<lparr>callCount := callCount st + 1\<rparr>;
          ev0 = [CallStarted (callCount st1) (getprop_opt callInfo ''lead_id''),
                 Sleep (callDuration cfg)]
      in case endCall_step cfg env (client st1) callInfo of
           (Inl e, c1, evs1) \<Rightarrow>
             (st1\<lparr>client := c1, lastLeadId := JNull\<rparr>,
              ev0 @ evs1 @ [Err ''Error handling call'', Sleep 5000])
         | (Inr _, c1, evs1) \<Rightarrow>
             (case disposition_step cfg env c1 callInfo of
                (Inl e, c2, evs2) \<Rightarrow>
                  (st1\<lparr>client := c2, lastLeadId := JNull\<rparr>,
                   ev0 @ evs1 @ [Sleep 2000] @ evs2 @ [Err ''Error handling call'', Sleep 5000])
              | (Inr _, c2, evs2) \<Rightarrow>
                  (st1\<lparr>client := c2, lastLeadId := JNull\<rparr>,
                   ev0 @ evs1 @ [Sleep 2000] @ evs2 @
                   [Sleep 2000, Info ''Call completed'', Info ''Waiting for next call...'',
                    Sleep 3000])))"


text \<open>
  What the page answers during \<open>stop\<close>: whether the status button and the break option
  were found (the page function clicks what it finds), and whether \<open>browser.close()\<close>
  resolves, in the \<open>try\<close> and again in the \<open>catch\<close>.
\<close>

record stop_env =
  statusFound :: "bool outcome"
  breakFound :: "bool outcome"
  closeBrowser :: "unit outcome"
  closeBrowserInCatch :: "unit outcome"

definition click_if :: "bool \<Rightarrow> control \<Rightarrow> event list" where
  "click_if found c = (if found then [Click c] else [])"

definition stop_catch :: "stop_env \<Rightarrow> agent \<Rightarrow> event list \<Rightarrow> (error + unit) \<times> agent \<times> event list" where
  "stop_catch env st ev =
     (case closeBrowserInCatch env of
        Rejects \<Rightarrow> (Inl PageError, st, ev @ [Err ''Error during stop''])
      | Resolves _ \<Rightarrow> (Inr (), st, ev @ [Err ''Error during stop'', CloseBrowser]))"

text \<open>
  \<open>stop\<close>: returns at once when the agent is not running; otherwise it clears
  \<open>isRunning\<close> and goes straight to the shutdown sequence (open the status dropdown,
  choose the break option, close the browser). It reads neither \<open>inCall\<close> nor the state
  of any call.
\<close>

definition stop :: "stop_env \<Rightarrow> agent \<Rightarrow> (error + unit) \<times> agent \<times> event list" where
  "stop env st =
     (if \<not> isRunning st then (Inr (), st, [])
      else
        (let st1 = st\<lparr>isRunning := False\<rparr>
         in case statusFound env of
              Rejects \<Rightarrow> stop_catch env st1 []
            | Resolves found1 \<Rightarrow>
                (let ev1 = click_if found1 StatusButton @ [Sleep 1000]
                 in case breakFound env of
                      Rejects \<Rightarrow> stop_catch env st1 ev1
                    | Resolves found2 \<Rightarrow>
                        (let ev2 = ev1 @ click_if found2 NotReadyBreakOption @ [Sleep 2000]
                         in case closeBrowser env of
                              Rejects \<Rightarrow> stop_catch env st1 ev2
                            | Resolves _ \<Rightarrow>
                                (Inr (), st1,
                                 ev2 @ [CloseBrowser, Info ''Agent stopped successfully''])))))"

text \<open>
  \<open>a === b\<close> on values that crossed the page boundary: equal primitives; two arrays or
  objects are distinct copies and never identical.
\<close>

fun strict_eq :: "json \<Rightarrow> json \<Rightarrow> bool" where
  "strict_eq (JArr _) _ = False"
| "strict_eq (JObj _) _ = False"
| "strict_eq a b = (a = b)"

text \<open>\<open>config.maxCalls > 0 && this.callCount >= config.maxCalls\<close>.\<close>

definition maxCallsReached :: "config \<Rightarrow> agent \<Rightarrow> bool" where
  "maxCallsReached cfg st = (0 < maxCalls cfg \<and> maxCalls cfg \<le> int (callCount st))"

text \<open>
  What the outside answers during one iteration of the monitoring loop: the call info
  the page reports (\<open>null\<close> when there is no call), the answers during the call if one
  is handled, and the answers during \<open>stop\<close> if the budget is reached.
\<close>

record iter_env =
  detected :: "json outcome"
  call :: call_env
  stopping :: stop_env

text \<open>The \<open>catch\<close> of the monitoring loop.\<close>

definition monitor_catch :: "agent \<Rightarrow> agent" where
  "monitor_catch st = st\<lparr>inCall := False, lastLeadId := JNull\<rparr>"

text \<open>
  \<open>monitorCalls\<close> of \<open>PuppeteerAgent.js\<close>. One element of the list is consumed per
  iteration of the \<open>while\<close> loop; the run is observed until the list ends or the loop
  exits. \<open>handleCall\<close> is awaited, so the next detection happens after it returned.
\<close>

fun monitorCalls :: "config \<Rightarrow> agent \<Rightarrow> iter_env list \<Rightarrow> agent \<times> event list" where
  "monitorCalls cfg st [] = (st, [])"
| "monitorCalls cfg st (e # es) =
     (if \<not> isRunning st then (st, [])
      else if maxCallsReached cfg st then
        (case stop (stopping e) st of
           (Inr _, st1, evs) \<Rightarrow> (st1, Info ''Maximum calls reached. Stopping...'' # evs)
         | (Inl _, st1, evs) \<Rightarrow>
             (case monitorCalls cfg (monitor_catch st1) es of
                (st2, evs2) \<Rightarrow>
                  (st2, Info ''Maximum calls reached. Stopping...'' # evs @
                        [Err ''Error in monitor loop'', Sleep 5000] @ evs2)))
      else if inCall st then
        (case monitorCalls cfg st es of (st2, evs2) \<Rightarrow> (st2, Sleep 1000 # evs2))
      else
        (case detected e of
           Rejects \<Rightarrow>
             (case monitorCalls cfg (monitor_catch st) es of
                (st2, evs2) \<Rightarrow> (st2, [Err ''Error in monitor loop'', Sleep 5000] @ evs2))
         | Resolves callInfo \<Rightarrow>
             if truthy callInfo \<and> truthy (getprop_opt callInfo ''lead_id'') then
               (if strict_eq (lastLeadId st) (getprop_opt callInfo ''lead_id'') then
                  (case monitorCalls cfg st es of (st2, evs2) \<Rightarrow> (st2, Sleep 1000 # evs2))
                else
                  (case handleCall cfg (call e)
                          (st\<lparr>inCall := True, lastLeadId := getprop_opt callInfo ''lead_id''\<rparr>)
                          callInfo of
                     (st1, evs) \<Rightarrow>
                       (case monitorCalls cfg (st1\<lparr>inCall := False\<rparr>) es of
                          (st2, evs2) \<Rightarrow> (st2, evs @ evs2))))
             else
               (case monitorCalls cfg (st\<lparr>lastLeadId := JNull\<rparr>) es of
                  (st2, evs2) \<Rightarrow> (st2, Sleep 2000 # evs2))))"

fun is_call_started :: "event \<Rightarrow> bool" where
  "is_call_started (CallStarted _ _) = True"
| "is_call_started _ = False"

text \<open>How many times a trace enters \<open>handleCall\<close>.\<close>

definition calls_started :: "event list \<Rightarrow> nat" where
  "calls_started evs = length (filter is_call_started evs)"


section \<open>Claims about PuppeteerAgent\<close>

subsection \<open>The disposition ladder\<close>

text \<open>The REST disposition request: a PUT to the lead-disposition endpoint.\<close>

fun is_dispo_request :: "event \<Rightarrow> bool" where
  "is_dispo_request (Request m u _ _) = (m = PUT \<and> u = ep_leadDisposition)"
| "is_dispo_request _ = False"

definition dispo_requests :: "event list \<Rightarrow> nat" where
  "dispo_requests evs = length (filter is_dispo_request evs)"

text \<open>
  An entry into \<open>setDispositionViaAPI\<close>: its first action, the read of the page's
  cookies, which it performs on every entry.
\<close>

fun is_api_fallback :: "event \<Rightarrow> bool" where
  "is_api_fallback PageCookies = True"
| "is_api_fallback _ = False"

definition api_fallbacks :: "event list \<Rightarrow> nat" where
  "api_fallbacks evs = length (filter is_api_fallback evs)"

text \<open>The fallback could read the page's cookies and session identifiers.\<close>

definition harvested :: "call_env \<Rightarrow> bool" where
  "harvested env = (pageCookies env \<noteq> Rejects \<and> dispoSessionInfo env \<noteq> Rejects)"

lemma dispo_requests_append [simp]: "dispo_requests (xs @ ys) = dispo_requests xs + dispo_requests ys"
  by (simp add: dispo_requests_def)

lemma dispo_requests_Nil [simp]: "dispo_requests [] = 0"
  by (simp add: dispo_requests_def)

lemma dispo_requests_Cons [simp]: "dispo_requests (e # evs) = (if is_dispo_request e then 1 else 0) + dispo_requests evs"
  by (simp add: dispo_requests_def)

lemma api_fallbacks_append [simp]: "api_fallbacks (xs @ ys) = api_fallbacks xs + api_fallbacks ys"
  by (simp add: api_fallbacks_def)

lemma api_fallbacks_Nil [simp]: "api_fallbacks [] = 0"
  by (simp add: api_fallbacks_def)

lemma api_fallbacks_Cons [simp]: "api_fallbacks (e # evs) = (if is_api_fallback e then 1 else 0) + api_fallbacks evs"
  by (simp add: api_fallbacks_def)

lemma not_dispo_hangup [simp]: "\<not> is_dispo_request (Request POST u b c)"
  by simp

lemma hangup_events:
  assumes "hangup out st cid callInfo d sid alid = (r, c1, evs)"
  shows "dispo_requests evs = 0 \<and> api_fallbacks evs = 0"
proof (cases "getprop callInfo ''phone_code''")
  case (Inl e)
  with assms show ?thesis by (simp add: hangup_def)
next
  case (Inr v)
  have "\<exists>b c. evs = [Request POST ep_hangup b c]"
    using assms Inr
    by (auto simp add: hangup_def Let_def split: sum.splits if_splits)
  then show ?thesis by auto
qed

lemma viaAPI_counts:
  "api_fallbacks (snd (setDispositionViaAPI cfg env c callInfo)) = 1 \<and>
   dispo_requests (snd (setDispositionViaAPI cfg env c callInfo)) = (if harvested env then 1 else 0)"
proof (cases "pageCookies env")
  case Rejects
  then show ?thesis by (simp add: setDispositionViaAPI_def harvested_def)
next
  case (Resolves cs)
  show ?thesis
  proof (cases "dispoSessionInfo env")
    case Rejects
    with Resolves show ?thesis by (simp add: setDispositionViaAPI_def harvested_def)
  next
    case r2: (Resolves p)
    obtain sid alid where p: "p = (sid, alid)" by (cases p)
    let ?c = "c\<lparr>cookies := cookieObj cs, sessionId := sid, agentLogId := alid\<rparr>"
    obtain r c2 evs where sd: "setDisposition (dispoApi env) ?c
                          (campaignId cfg) (getprop_opt callInfo ''lead_id'')
                          (getprop_opt callInfo ''phone_code'')
                          (getprop_opt callInfo ''phone_number'') (dispositionStatus cfg) = (r, c2, evs)"
      by (metis prod_cases3)
    have "dispo_requests evs = 1 \<and> api_fallbacks evs = 0"
      using setDisposition_events[of "dispoApi env" ?c "campaignId cfg" "getprop_opt callInfo ''lead_id''"
          "getprop_opt callInfo ''phone_code''" "getprop_opt callInfo ''phone_number''" "dispositionStatus cfg"]
      by (simp add: sd)
    with Resolves r2 p sd show ?thesis
      by (cases r) (simp_all add: setDispositionViaAPI_def harvested_def Let_def)
  qed
qed

lemma endCall_step_counts:
  "endCall_step cfg env c callInfo = (r, c1, evs) \<Longrightarrow>
   dispo_requests evs = 0 \<and> api_fallbacks evs = 0"
  by (auto simp add: endCall_step_def Let_def
        split: outcome.splits bool.splits prod.splits sum.splits dest: hangup_events)

text \<open>
  Both ways up the ladder found no button: the direct click resolved to \<open>false\<close>, and
  so did either the attempt to open the panel or, in the opened panel, the second click.
\<close>

definition ladder_exhausted :: "call_env \<Rightarrow> bool" where
  "ladder_exhausted env =
     (dispositionClicked env = Resolves False \<and>
      (dispositionPanelOpened env = Resolves False \<or>
       (dispositionPanelOpened env = Resolves True \<and> dispositionSet env = Resolves False)))"

lemma disposition_step_counts:
  assumes "disposition_step cfg env c callInfo = (r, c1, evs)"
  shows "api_fallbacks evs = (if ladder_exhausted env then 1 else 0) \<and>
         dispo_requests evs = (if ladder_exhausted env \<and> harvested env then 1 else 0)"
  using assms viaAPI_counts[of cfg env c callInfo]
  by (auto simp add: disposition_step_def ladder_exhausted_def Let_def
        split: outcome.splits bool.splits prod.splits if_splits)

lemma handleCall_counts:
  "api_fallbacks (snd (handleCall cfg env st callInfo)) =
     (if fst (endCall_step cfg env (client st) callInfo) = Inr () \<and> ladder_exhausted env
      then 1 else 0) \<and>
   dispo_requests (snd (handleCall cfg env st callInfo)) =
     (if fst (endCall_step cfg env (client st) callInfo) = Inr () \<and> ladder_exhausted env \<and>
         harvested env
      then 1 else 0)"
proof -
  obtain r1 c1 evs1 where e1: "endCall_step cfg env (client st) callInfo = (r1, c1, evs1)"
    by (metis prod_cases3)
  obtain r2 c2 evs2 where e2: "disposition_step cfg env c1 callInfo = (r2, c2, evs2)"
    by (metis prod_cases3)
  note z = endCall_step_counts[OF e1] disposition_step_counts[OF e2]
  show ?thesis
    using z by (cases r1; cases r2) (simp_all add: handleCall_def Let_def e1 e2)
qed

text \<open>A call whose WRAPUP and disposition buttons are found at the first attempt.\<close>

definition demo_call_env :: call_env where
  "demo_call_env =
     \<lparr>wrapupClicked = Resolves True, retryWrapup = Resolves False, modalWrapup = Resolves False,
      hangupSessionInfo = Resolves (JUndefined, JUndefined), actualDuration = 15004,
      hangup_out = NoResponse ''Network Error'',
      dispositionClicked = Resolves True, dispositionPanelOpened = Resolves False,
      dispositionSet = Resolves False,
      pageCookies = Resolves [(''PROJECTXSESS'', ''abc'')],
      dispoSessionInfo = Resolves (JStr ''s1'', JStr ''7''),
      dispoApi = demo_dispo_env\<rparr>"

text \<open>
  Claim C3 as stated (when both ways of clicking the disposition fail, the REST
  disposition is invoked exactly once) fails in two ways. When the direct click and the
  attempt to open the panel both find nothing but the page's cookies cannot be read,
  \<open>setDispositionViaAPI\<close> is entered and its \<open>catch\<close> ends it before any request: no
  REST disposition is sent. And when the attempt to open the panel fails by throwing,
  the \<open>catch\<close> of \<open>handleCall\<close> ends the call: the fallback is not entered at all.
\<close>

theorem fallback_sends_no_request:
  "api_fallbacks (snd (handleCall default_config
       (demo_call_env\<lparr>dispositionClicked := Resolves False, pageCookies := Rejects\<rparr>)
       agent_started demo_callInfo)) = 1 \<and>
   dispo_requests (snd (handleCall default_config
       (demo_call_env\<lparr>dispositionClicked := Resolves False, pageCookies := Rejects\<rparr>)
       agent_started demo_callInfo)) = 0 \<and>
   api_fallbacks (snd (handleCall default_config
       (demo_call_env\<lparr>dispositionClicked := Resolves False, dispositionPanelOpened := Rejects\<rparr>)
       agent_started demo_callInfo)) = 0 \<and>
   dispo_requests (snd (handleCall default_config
       (demo_call_env\<lparr>dispositionClicked := Resolves False, dispositionPanelOpened := Rejects\<rparr>)
       agent_started demo_callInfo)) = 0"
  by (simp add: handleCall_def endCall_step_def disposition_step_def setDispositionViaAPI_def
        demo_call_env_def Let_def)

text \<open>
  Claim C3, amended. In every run of \<open>handleCall\<close> the REST fallback
  \<open>setDispositionViaAPI\<close> is entered at most once and at most one REST disposition
  request is sent, none without an entry into the fallback. The fallback is entered
  (once) exactly when the end-call step completed, the direct click on the disposition
  button resolved to \<open>false\<close>, and either the attempt to open the panel resolved to
  \<open>false\<close> or the panel opened and the click in it resolved to \<open>false\<close>; a step that
  throws instead ends the call without the fallback. The one request is sent exactly
  when the fallback is entered and can read the page's cookies and session
  identifiers.
\<close>

theorem disposition_fallback_once:
  "api_fallbacks (snd (handleCall cfg env st callInfo)) \<le> 1 \<and>
   dispo_requests (snd (handleCall cfg env st callInfo)) \<le>
     api_fallbacks (snd (handleCall cfg env st callInfo)) \<and>
   (api_fallbacks (snd (handleCall cfg env st callInfo)) = 1) =
     (fst (endCall_step cfg env (client st) callInfo) = Inr () \<and>
      dispositionClicked env = Resolves False \<and>
      (dispositionPanelOpened env = Resolves False \<or>
       (dispositionPanelOpened env = Resolves True \<and> dispositionSet env = Resolves False))) \<and>
   (dispo_requests (snd (handleCall cfg env st callInfo)) = 1) =
     (api_fallbacks (snd (handleCall cfg env st callInfo)) = 1 \<and>
      pageCookies env \<noteq> Rejects \<and> dispoSessionInfo env \<noteq> Rejects)"
  using handleCall_counts[of cfg env st callInfo]
  by (simp add: ladder_exhausted_def harvested_def)

theorem disposition_fallback_once_witness:
  "api_fallbacks (snd (handleCall default_config
       (demo_call_env\<lparr>dispositionClicked := Resolves False\<rparr>) agent_started demo_callInfo)) = 1 \<and>
   dispo_requests (snd (handleCall default_config
       (demo_call_env\<lparr>dispositionClicked := Resolves False\<rparr>) agent_started demo_callInfo)) = 1"
  using disposition_fallback_once[of default_config
      "demo_call_env\<lparr>dispositionClicked := Resolves False\<rparr>" agent_started demo_callInfo]
  by (simp add: demo_call_env_def endCall_step_def)

subsection \<open>The monitoring loop and the call budget\<close>

lemma calls_started_append [simp]: "calls_started (xs @ ys) = calls_started xs + calls_started ys"
  by (simp add: calls_started_def)

lemma calls_started_Nil [simp]: "calls_started [] = 0"
  by (simp add: calls_started_def)

lemma calls_started_Cons [simp]:
  "calls_started (e # evs) = (if is_call_started e then 1 else 0) + calls_started evs"
  by (simp add: calls_started_def)

lemma hangup_no_call:
  assumes "hangup out st cid callInfo d sid alid = (r, c1, evs)"
  shows "calls_started evs = 0"
proof (cases "getprop callInfo ''phone_code''")
  case (Inl e)
  with assms show ?thesis by (simp add: hangup_def)
next
  case (Inr v)
  have "\<exists>b c. evs = [Request POST ep_hangup b c]"
    using assms Inr
    by (auto simp add: hangup_def Let_def split: sum.splits if_splits)
  then show ?thesis by auto
qed

lemma endCall_step_no_call:
  "endCall_step cfg env c callInfo = (r, c1, evs) \<Longrightarrow> calls_started evs = 0"
  by (auto simp add: endCall_step_def Let_def
        split: outcome.splits bool.splits prod.splits sum.splits dest: hangup_no_call)

lemma viaAPI_no_call:
  "calls_started (snd (setDispositionViaAPI cfg env c callInfo)) = 0"
proof (cases "pageCookies env")
  case Rejects
  then show ?thesis by (simp add: setDispositionViaAPI_def)
next
  case (Resolves cs)
  show ?thesis
  proof (cases "dispoSessionInfo env")
    case Rejects
    with Resolves show ?thesis by (simp add: setDispositionViaAPI_def)
  next
    case r2: (Resolves p)
    obtain sid alid where p: "p = (sid, alid)" by (cases p)
    let ?c = "c\<lparr>cookies := cookieObj cs, sessionId := sid, agentLogId := alid\<rparr>"
    obtain r c2 evs where sd: "setDisposition (dispoApi env) ?c
                          (campaignId cfg) (getprop_opt callInfo ''lead_id'')
                          (getprop_opt callInfo ''phone_code'')
                          (getprop_opt callInfo ''phone_number'') (dispositionStatus cfg) = (r, c2, evs)"
      by (metis prod_cases3)
    have "calls_started evs = 0"
      using setDisposition_events[of "dispoApi env" ?c "campaignId cfg" "getprop_opt callInfo ''lead_id''"
          "getprop_opt callInfo ''phone_code''" "getprop_opt callInfo ''phone_number''" "dispositionStatus cfg"]
      by (simp add: sd)
    with Resolves r2 p sd show ?thesis
      by (cases r) (simp_all add: setDispositionViaAPI_def Let_def)
  qed
qed

lemma disposition_step_no_call:
  "disposition_step cfg env c callInfo = (r, c1, evs) \<Longrightarrow> calls_started evs = 0"
  using viaAPI_no_call[of cfg env c callInfo]
  by (auto simp add: disposition_step_def Let_def split: outcome.splits bool.splits prod.splits if_splits)

lemma handleCall_effect:
  "isRunning (fst (handleCall cfg env st callInfo)) = isRunning st \<and>
   inCall (fst (handleCall cfg env st callInfo)) = inCall st \<and>
   callCount (fst (handleCall cfg env st callInfo)) = callCount st + 1 \<and>
   lastLeadId (fst (handleCall cfg env st callInfo)) = JNull \<and>
   calls_started (snd (handleCall cfg env st callInfo)) = 1"
proof -
  obtain r1 c1 evs1 where e1: "endCall_step cfg env (client st) callInfo = (r1, c1, evs1)"
    by (metis prod_cases3)
  obtain r2 c2 evs2 where e2: "disposition_step cfg env c1 callInfo = (r2, c2, evs2)"
    by (metis prod_cases3)
  note z = endCall_step_no_call[OF e1] disposition_step_no_call[OF e2]
  show ?thesis
    using z by (cases r1; cases r2) (simp_all add: handleCall_def Let_def e1 e2)
qed







text \<open>The iteration's detection resolves with a call: truthy call info with a truthy lead id.\<close>

definition call_detected :: "iter_env \<Rightarrow> bool" where
  "call_detected e =
     (case detected e of
        Rejects \<Rightarrow> False
      | Resolves callInfo \<Rightarrow> truthy callInfo \<and> truthy (getprop_opt callInfo ''lead_id''))"

lemma strict_eq_null: "truthy v \<Longrightarrow> \<not> strict_eq JNull v"
  by (cases v) simp_all


section \<open>ConvosoAgent: the polling controller\<close>

text \<open>
  What the network answers during one \<open>handleCall\<close> of the polling agent, which uses
  the agent's \<open>isRunning\<close>, \<open>callCount\<close> and REST client only.
\<close>

record ca_call_env =
  ca_actualDuration :: nat
  ca_hangup_out :: http_outcome
  ca_dispo :: dispo_env

text \<open>
  \<open>ConvosoAgent.handleCall\<close>: count the call, hold it, hang up and set the disposition
  over REST. The \<open>catch\<close> logs, pauses 5 s and returns. The log line that reads
  \<open>callInfo.first_name\<close> throws when the poll delivered no call info.
\<close>

definition ca_handleCall :: "config \<Rightarrow> ca_call_env \<Rightarrow> agent \<Rightarrow> json \<Rightarrow> agent \<times> event list" where
  "ca_handleCall cfg env st callInfo =
     (let st1 = st\<lparr>callCount := callCount st + 1\<rparr>;
          ev0 = [CallStarted (callCount st1) (getprop_opt callInfo ''lead_id'')]
      in case getprop callInfo ''first_name'' of
           Inl e \<Rightarrow> (st1, ev0 @ [Err ''Error handling call'', Sleep 5000])
         | Inr _ \<Rightarrow>
             (let ev1 = ev0 @ [Sleep (callDuration cfg)]
              in case hangup (ca_hangup_out env) (client st1) (campaignId cfg) callInfo
                        (ca_actualDuration env) JNull JNull of
                   (Inl e, c1, evs1) \<Rightarrow>
                     (st1\<lparr>client := c1\<rparr>, ev1 @ evs1 @ [Err ''Error handling call'', Sleep 5000])
                 | (Inr _, c1, evs1) \<Rightarrow>
                     (case setDisposition (ca_dispo env) c1 (campaignId cfg)
                             (getprop_opt callInfo ''lead_id'')
                             (getprop_opt callInfo ''phone_code'')
                             (getprop_opt callInfo ''phone_number'') (dispositionStatus cfg) of
                        (Inl e, c2, evs2) \<Rightarrow>
                          (st1\<lparr>client := c2\<rparr>,
                           ev1 @ evs1 @ evs2 @ [Err ''Error handling call'', Sleep 5000])
                      | (Inr _, c2, evs2) \<Rightarrow>
                          (st1\<lparr>client := c2\<rparr>, ev1 @ evs1 @ evs2 @ [Info ''Call completed'']))))"

record ca_stop_env =
  ca_avail :: avail_env
  ca_logout_out :: http_outcome

text \<open>
  \<open>ConvosoAgent.stop\<close>: set not-ready, pause 1 s, log out; a failure of either request
  is logged by the \<open>catch\<close>.
\<close>

definition ca_stop :: "config \<Rightarrow> ca_stop_env \<Rightarrow> agent \<Rightarrow> agent \<times> event list" where
  "ca_stop cfg env st =
     (if \<not> isRunning st then (st, [])
      else
        (let st1 = st\<lparr>isRunning := False\<rparr>
         in case changeAvailability cfg (ca_avail env) (client st1) (campaignId cfg)
                   (JStr (availabilityNotReady cfg)) of
              (Inl e, c1, evs1) \<Rightarrow> (st1\<lparr>client := c1\<rparr>, evs1 @ [Err ''Error during stop''])
            | (Inr _, c1, evs1) \<Rightarrow>
                (case phoneLogout cfg (ca_logout_out env) c1 (campaignId cfg) of
                   (Inl e, c2, evs2) \<Rightarrow>
                     (st1\<lparr>client := c2\<rparr>, evs1 @ [Sleep 1000] @ evs2 @ [Err ''Error during stop''])
                 | (Inr _, c2, evs2) \<Rightarrow>
                     (st1\<lparr>client := c2\<rparr>,
                      evs1 @ [Sleep 1000] @ evs2 @ [Info ''Agent stopped successfully'']))))"

text \<open>\<open>s.includes(sub)\<close>.\<close>

fun js_includes :: "string \<Rightarrow> string \<Rightarrow> bool" where
  "js_includes [] sub = (sub = [])"
| "js_includes (x # xs) sub = (startsWith (x # xs) sub \<or> js_includes xs sub)"

text \<open>
  \<open>error.message\<close>: the text given to \<open>new Error\<close>, axios's text for a refused status,
  the transport error's own text, and the engine's text for reading a property of
  \<open>undefined\<close>.
\<close>

definition message :: "error \<Rightarrow> string" where
  "message e =
     (case e of
        TypeError \<Rightarrow> ''Cannot read properties of undefined''
      | NetworkError m \<Rightarrow> m
      | HttpError n \<Rightarrow> ''Request failed with status code '' @ show_nat n
      | PageError \<Rightarrow> ''Protocol error''
      | Error m \<Rightarrow> m)"

text \<open>The loop's test for a critical error.\<close>

definition critical :: "error \<Rightarrow> bool" where
  "critical e = (js_includes (message e) ''authentication'' \<or> js_includes (message e) ''session'')"

record poll_env =
  poll_out :: http_outcome
  poll_uid :: string
  poll_call :: ca_call_env
  poll_stopping :: ca_stop_env

text \<open>
  \<open>handleCallsLoop\<close>: stop at the budget; otherwise poll once, handle the call found,
  or sleep for the poll interval. A poll error stops the agent when its message names
  authentication or the session, and otherwise costs a 5 s pause.
\<close>

fun handleCallsLoop :: "config \<Rightarrow> agent \<Rightarrow> poll_env list \<Rightarrow> agent \<times> event list" where
  "handleCallsLoop cfg st [] = (st, [])"
| "handleCallsLoop cfg st (e # es) =
     (if \<not> isRunning st then (st, [])
      else if maxCallsReached cfg st then
        (case ca_stop cfg (poll_stopping e) st of
           (st1, evs) \<Rightarrow> (st1, Info ''Maximum calls reached. Stopping...'' # evs))
      else
        (case checkAutoIncoming (poll_out e) (poll_uid e) (client st) (campaignId cfg)
                (campaignDialMethod cfg) of
           (Inl err, c1, evs) \<Rightarrow>
             if critical err then
               (case ca_stop cfg (poll_stopping e) (st\<lparr>client := c1\<rparr>) of
                  (st1, evs1) \<Rightarrow>
                    (st1, evs @ [Err ''Error in call loop'',
                                 Err ''Critical error detected. Stopping agent...''] @ evs1))
             else
               (case handleCallsLoop cfg (st\<lparr>client := c1\<rparr>) es of
                  (st2, evs2) \<Rightarrow> (st2, evs @ [Err ''Error in call loop'', Sleep 5000] @ evs2))
         | (Inr (Some callInfo), c1, evs) \<Rightarrow>
             (case ca_handleCall cfg (poll_call e) (st\<lparr>client := c1\<rparr>) callInfo of
                (st1, evs1) \<Rightarrow>
                  (case handleCallsLoop cfg st1 es of
                     (st2, evs2) \<Rightarrow> (st2, evs @ evs1 @ evs2)))
         | (Inr None, c1, evs) \<Rightarrow>
             (case handleCallsLoop cfg (st\<lparr>client := c1\<rparr>) es of
                (st2, evs2) \<Rightarrow> (st2, evs @ Sleep (pollInterval cfg) # evs2))))"


subsection \<open>The polling loop and the call budget\<close>






lemma handleCallsLoop_not_running:
  "\<not> isRunning st \<Longrightarrow> handleCallsLoop cfg st es = (st, [])"
  by (cases es) simp_all






section \<open>The call budget\<close>


definition demo_stop_env :: stop_env where
  "demo_stop_env = \<lparr>statusFound = Resolves True, breakFound = Resolves True,
                     closeBrowser = Resolves (), closeBrowserInCatch = Resolves ()\<rparr>"

definition demo_iter :: "int \<Rightarrow> call_env \<Rightarrow> iter_env" where
  "demo_iter lead env =
     \<lparr>detected = Resolves (JObj [(''lead_id'', JNum lead), (''phone_code'', JStr ''1''),
                                  (''phone_number'', JStr ''5551234567'')]),
      call = env, stopping = demo_stop_env\<rparr>"



section \<open>previousPuppeteerAgent: the earlier browser-driven controller\<close>

text \<open>
  Time is read from \<open>Date.now()\<close> and advanced by the awaited operations: a sleep of
  \<open>n\<close> ms takes \<open>n\<close> ms, and the \<open>i\<close>-th poll of the page's phone state takes the
  latency the environment gives it and resolves with the state or rejects.
\<close>

type_synonym phone_obs = "nat \<Rightarrow> nat \<times> json outcome"

text \<open>
  The loop of \<open>waitForPhoneState\<close>, from poll \<open>i\<close> with \<open>elapsed\<close> ms gone since
  \<open>startTime\<close>. The result comes with the number of polls made and the time gone at
  the return.
\<close>

function waitLoop ::
  "phone_obs \<Rightarrow> json \<Rightarrow> nat \<Rightarrow> nat \<Rightarrow> nat \<Rightarrow> (error + bool) \<times> nat \<times> nat" where
  "waitLoop obs expectedState timeoutMs i elapsed =
     (if elapsed < timeoutMs then
        (case obs i of
           (latency, Rejects) \<Rightarrow> (Inl PageError, Suc i, elapsed + latency)
         | (latency, Resolves currentState) \<Rightarrow>
             if strict_eq currentState expectedState
             then (Inr True, Suc i, elapsed + latency)
             else waitLoop obs expectedState timeoutMs (Suc i) (elapsed + latency + 500))
      else (Inr False, i, elapsed))"
  by pat_completeness auto
termination
  by (relation "measure (\<lambda>(obs, expectedState, timeoutMs, i, elapsed). timeoutMs - elapsed)") auto

declare waitLoop.simps [simp del]

definition waitForPhoneState :: "phone_obs \<Rightarrow> json \<Rightarrow> nat \<Rightarrow> (error + bool) \<times> nat \<times> nat" where
  "waitForPhoneState obs expectedState timeoutMs = waitLoop obs expectedState timeoutMs 0 0"

text \<open>
  What the page and the network answer during one \<open>handleCall\<close> of the earlier agent,
  under the names of its source; \<open>prev_fallback\<close> holds the answers to
  \<open>setDispositionViaAPI\<close>, whose code is the same in both agents (the earlier one also
  returns whether it succeeded, which no caller reads).
\<close>

record prev_call_env =
  prev_wrapupClicked :: "bool outcome"
  prev_dispositionSet :: "bool outcome"
  prev_panelOpened :: "bool outcome"
  prev_retryDispo :: "bool outcome"
  prev_fallback :: call_env
  prev_phoneStates :: phone_obs

text \<open>The disposition part of the earlier \<open>handleCall\<close>.\<close>

definition prev_disposition_step ::
  "config \<Rightarrow> prev_call_env \<Rightarrow> api \<Rightarrow> json \<Rightarrow> (error + unit) \<times> api \<times> event list" where
  "prev_disposition_step cfg env c callInfo =
     (case prev_dispositionSet env of
        Rejects \<Rightarrow> (Inl PageError, c, [])
      | Resolves True \<Rightarrow> (Inr (), c, [Click DispositionStatusButton])
      | Resolves False \<Rightarrow>
          (let ev1 = [Warn ''Disposition button not found, trying to open panel...'']
           in case prev_panelOpened env of
                Rejects \<Rightarrow> (Inl PageError, c, ev1)
              | Resolves True \<Rightarrow>
                  (let ev2 = ev1 @ [Click DispositionPanelButton, Sleep 2000]
                   in case prev_retryDispo env of
                        Rejects \<Rightarrow> (Inl PageError, c, ev2)
                      | Resolves True \<Rightarrow> (Inr (), c, ev2 @ [Click DispositionStatusButton])
                      | Resolves False \<Rightarrow>
                          (case setDispositionViaAPI cfg (prev_fallback env) c callInfo of
                             (c1, evs) \<Rightarrow>
                               (Inr (), c1,
                                ev2 @ [Err ''Could not set disposition via UI, using API...''] @ evs)))
              | Resolves False \<Rightarrow>
                  (case setDispositionViaAPI cfg (prev_fallback env) c callInfo of
                     (c1, evs) \<Rightarrow>
                       (Inr (), c1,
                        ev1 @ [Err ''Could not open disposition panel, using API...''] @ evs))))"

text \<open>The \<open>catch\<close> of the earlier \<open>handleCall\<close>: log, forget the call's identity, pause.\<close>

definition prev_call_catch :: "agent \<Rightarrow> api \<Rightarrow> event list \<Rightarrow> agent \<times> event list" where
  "prev_call_catch st c evs =
     (st\<lparr>client := c, lastLeadId := JNull, lastCallLogId := JNull\<rparr>,
      evs @ [Err ''Error handling call'', Sleep 5000])"

text \<open>
  \<open>handleCall\<close> of the earlier agent: hold the call, click WRAPUP once, wait 4 s, set
  the disposition, then wait up to 10 s for phone state 2 (Available). A timeout of that
  wait only logs a warning. The polls' sleeps are part of the trace.
\<close>

definition prev_handleCall ::
  "config \<Rightarrow> prev_call_env \<Rightarrow> agent \<Rightarrow> json \<Rightarrow> agent \<times> event list" where
  "prev_handleCall cfg env st callInfo =
     (let st1 = st\<lparr>callCount := callCount st + 1\<rparr>;
          ev0 = [CallStarted (callCount st1) (getprop_opt callInfo ''lead_id''),
                 Sleep (callDuration cfg)]
      in case prev_wrapupClicked env of
           Rejects \<Rightarrow> prev_call_catch st1 (client st1) ev0
         | Resolves clicked \<Rightarrow>
             (let ev1 = ev0 @
                        (if clicked then [Click WrapupButton]
                         else [Warn ''WRAPUP button not found, may already be in wrapup state'']) @
                        [Sleep 4000]
              in case prev_disposition_step cfg env (client st1) callInfo of
                   (Inl e, c1, evs) \<Rightarrow> prev_call_catch st1 c1 (ev1 @ evs)
                 | (Inr _, c1, evs) \<Rightarrow>
                     (case waitForPhoneState (prev_phoneStates env) (JNum 2) 10000 of
                        (Inl e, polls, elapsed) \<Rightarrow>
                          prev_call_catch st1 c1 (ev1 @ evs @ replicate (polls - 1) (Sleep 500))
                      | (Inr availableStateReached, polls, elapsed) \<Rightarrow>
                          (st1\<lparr>client := c1, lastLeadId := JNull, lastCallLogId := JNull\<rparr>,
                           ev1 @ evs @
                           replicate (if availableStateReached then polls - 1 else polls) (Sleep 500) @
                           [if availableStateReached then Info ''Ready for next call''
                            else Warn ''Did not return to Available state in time'',
                            Info ''Call completed'', Sleep 3000]))))"


record prev_stop_env =
  prev_availabilitySet :: "bool outcome"
  prev_logoutSuccess :: "bool outcome"
  prev_closeBrowser :: "unit outcome"
  prev_closeBrowserInCatch :: "unit outcome"

definition prev_stop_catch ::
  "prev_stop_env \<Rightarrow> agent \<Rightarrow> event list \<Rightarrow> (error + unit) \<times> agent \<times> event list" where
  "prev_stop_catch env st ev =
     (case prev_closeBrowserInCatch env of
        Rejects \<Rightarrow> (Inl PageError, st, ev @ [Err ''Error during stop''])
      | Resolves _ \<Rightarrow> (Inr (), st, ev @ [Err ''Error during stop'', CloseBrowser]))"

text \<open>
  \<open>stop\<close> of the earlier agent: set not-ready and log out through the page's Angular
  scope (each when the function is found), then close the browser.
\<close>

definition prev_stop ::
  "config \<Rightarrow> prev_stop_env \<Rightarrow> agent \<Rightarrow> (error + unit) \<times> agent \<times> event list" where
  "prev_stop cfg env st =
     (if \<not> isRunning st then (Inr (), st, [])
      else
        (let st1 = st\<lparr>isRunning := False\<rparr>
         in case prev_availabilitySet env of
              Rejects \<Rightarrow> prev_stop_catch env st1 []
            | Resolves found1 \<Rightarrow>
                (let ev1 = (if found1 then [ScopeCall ''setAvailability'' (availabilityNotReady cfg)]
                            else []) @ [Sleep 2000]
                 in case prev_logoutSuccess env of
                      Rejects \<Rightarrow> prev_stop_catch env st1 ev1
                    | Resolves found2 \<Rightarrow>
                        (let ev2 = ev1 @
                                   (if found2 then [ScopeCall ''logout'' (logoutCode cfg)] else []) @
                                   [Sleep 2000]
                         in case prev_closeBrowser env of
                              Rejects \<Rightarrow> prev_stop_catch env st1 ev2
                            | Resolves _ \<Rightarrow>
                                (Inr (), st1,
                                 ev2 @ [CloseBrowser, Info ''Agent stopped successfully''])))))"

record prev_iter_env =
  prev_phoneState :: "json outcome"
  prev_detected :: "json outcome"
  prev_call :: prev_call_env
  prev_stopping :: prev_stop_env

text \<open>The \<open>catch\<close> of the earlier monitoring loop resets \<open>inCall\<close> only.\<close>

definition prev_monitor_catch :: "agent \<Rightarrow> agent" where
  "prev_monitor_catch st = st\<lparr>inCall := False\<rparr>"

text \<open>
  \<open>monitorCalls\<close> of \<open>previousPuppeteerAgent.js\<close>: a call is looked for only in phone
  state 2, and a detection counts as the call already seen when both its lead id and
  its call-log id are identical to the remembered pair.
\<close>

fun prev_monitorCalls :: "config \<Rightarrow> agent \<Rightarrow> prev_iter_env list \<Rightarrow> agent \<times> event list" where
  "prev_monitorCalls cfg st [] = (st, [])"
| "prev_monitorCalls cfg st (e # es) =
     (if \<not> isRunning st then (st, [])
      else if maxCallsReached cfg st then
        (case prev_stop cfg (prev_stopping e) st of
           (Inr _, st1, evs) \<Rightarrow> (st1, Info ''Maximum calls reached. Stopping...'' # evs)
         | (Inl _, st1, evs) \<Rightarrow>
             (case prev_monitorCalls cfg (prev_monitor_catch st1) es of
                (st2, evs2) \<Rightarrow>
                  (st2, Info ''Maximum calls reached. Stopping...'' # evs @
                        [Err ''Error in monitor loop'', Sleep 5000] @ evs2)))
      else if inCall st then
        (case prev_monitorCalls cfg st es of (st2, evs2) \<Rightarrow> (st2, Sleep 1000 # evs2))
      else
        (case prev_phoneState e of
           Rejects \<Rightarrow>
             (case prev_monitorCalls cfg (prev_monitor_catch st) es of
                (st2, evs2) \<Rightarrow> (st2, [Err ''Error in monitor loop'', Sleep 5000] @ evs2))
         | Resolves phoneState \<Rightarrow>
             if \<not> strict_eq phoneState (JNum 2) then
               (case prev_monitorCalls cfg st es of (st2, evs2) \<Rightarrow> (st2, Sleep 2000 # evs2))
             else
               (case prev_detected e of
                  Rejects \<Rightarrow>
                    (case prev_monitorCalls cfg (prev_monitor_catch st) es of
                       (st2, evs2) \<Rightarrow> (st2, [Err ''Error in monitor loop'', Sleep 5000] @ evs2))
                | Resolves callInfo \<Rightarrow>
                    if truthy callInfo \<and> truthy (getprop_opt callInfo ''lead_id'') then
                      (if strict_eq (lastLeadId st) (getprop_opt callInfo ''lead_id'') \<and>
                          strict_eq (lastCallLogId st) (getprop_opt callInfo ''call_log_id'')
                       then
                         (case prev_monitorCalls cfg st es of
                            (st2, evs2) \<Rightarrow> (st2, Sleep 1000 # evs2))
                       else
                         (case prev_handleCall cfg (prev_call e)
                                 (st\<lparr>inCall := True,
                                     lastLeadId := getprop_opt callInfo ''lead_id'',
                                     lastCallLogId := getprop_opt callInfo ''call_log_id''\<rparr>)
                                 callInfo of
                            (st1, evs) \<Rightarrow>
                              (case prev_monitorCalls cfg (st1\<lparr>inCall := False\<rparr>) es of
                                 (st2, evs2) \<Rightarrow> (st2, evs @ evs2))))
                    else
                      (case prev_monitorCalls cfg st es of
                         (st2, evs2) \<Rightarrow> (st2, Sleep 2000 # evs2)))))"


section \<open>Claims about previousPuppeteerAgent\<close>

subsection \<open>The wait for the phone state\<close>

text \<open>Poll \<open>k\<close> resolves with a state identical to the expected one.\<close>

definition observes :: "phone_obs \<Rightarrow> json \<Rightarrow> nat \<Rightarrow> bool" where
  "observes obs expectedState k =
     (case obs k of
        (latency, Rejects) \<Rightarrow> False
      | (latency, Resolves currentState) \<Rightarrow> strict_eq currentState expectedState)"

text \<open>The time the page took to answer the polls \<open>i, ..., p - 1\<close>.\<close>

definition latency_sum :: "phone_obs \<Rightarrow> nat \<Rightarrow> nat \<Rightarrow> nat" where
  "latency_sum obs i p = (\<Sum>k = i..<p. fst (obs k))"

lemma latency_sum_step: "i < p \<Longrightarrow> latency_sum obs i p = fst (obs i) + latency_sum obs (Suc i) p"
  by (simp add: latency_sum_def sum.atLeast_Suc_lessThan)

lemma latency_sum_one [simp]: "latency_sum obs i (Suc i) = fst (obs i)"
  by (simp add: latency_sum_def)

lemma latency_sum_empty [simp]: "latency_sum obs i i = 0"
  by (simp add: latency_sum_def)

lemma waitLoop_timeout:
  "\<not> el < t \<Longrightarrow> waitLoop obs ex t i el = (Inr False, i, el)"
  by (subst waitLoop.simps) simp

lemma waitLoop_reject:
  "el < t \<Longrightarrow> obs i = (lat, Rejects) \<Longrightarrow>
   waitLoop obs ex t i el = (Inl PageError, Suc i, el + lat)"
  by (subst waitLoop.simps) simp

lemma waitLoop_match:
  "el < t \<Longrightarrow> obs i = (lat, Resolves s) \<Longrightarrow> strict_eq s ex \<Longrightarrow>
   waitLoop obs ex t i el = (Inr True, Suc i, el + lat)"
  by (subst waitLoop.simps) simp

lemma waitLoop_again:
  "el < t \<Longrightarrow> obs i = (lat, Resolves s) \<Longrightarrow> \<not> strict_eq s ex \<Longrightarrow>
   waitLoop obs ex t i el = waitLoop obs ex t (Suc i) (el + lat + 500)"
  by (subst waitLoop.simps) simp

lemma waitLoop_polls:
  "waitLoop obs ex t i el = (r, p, e) \<Longrightarrow> i \<le> p \<and> p \<le> i + (t - el + 499) div 500"
proof (induction obs ex t i el arbitrary: r p e rule: waitLoop.induct)
  case (1 obs ex t i el)
  show ?case
  proof (cases "el < t")
    case False
    with "1.prems" show ?thesis by (auto simp add: waitLoop_timeout)
  next
    case lt: True
    obtain lat out where o: "obs i = (lat, out)" by (cases "obs i")
    have one: "1 \<le> (t - el + 499) div 500" using lt by simp
    show ?thesis
    proof (cases out)
      case Rejects
      with "1.prems" lt o one show ?thesis by (simp add: waitLoop_reject)
    next
      case (Resolves s)
      show ?thesis
      proof (cases "strict_eq s ex")
        case True
        with "1.prems" lt o Resolves one show ?thesis by (simp add: waitLoop_match)
      next
        case False
        have rec: "waitLoop obs ex t (Suc i) (el + lat + 500) = (r, p, e)"
          using "1.prems" lt o Resolves False by (simp add: waitLoop_again)
        have ih: "Suc i \<le> p \<and> p \<le> Suc i + (t - (el + lat + 500) + 499) div 500"
          using "1.IH"[OF lt o[symmetric] Resolves False rec] .
        have "Suc ((t - (el + lat + 500) + 499) div 500) \<le> (t - el + 499) div 500"
          using lt by (cases "t - el < 500 + lat") (simp_all add: div_le_mono)
        with ih show ?thesis by linarith
      qed
    qed
  qed
qed


lemma waitLoop_elapsed:
  "waitLoop obs ex t i el = (r, p, e) \<Longrightarrow>
   e \<le> el + 500 * (p - i) + latency_sum obs i p \<and>
   (r = Inr False \<longrightarrow> e = el + 500 * (p - i) + latency_sum obs i p \<and> t \<le> e)"
proof (induction obs ex t i el arbitrary: r p e rule: waitLoop.induct)
  case (1 obs ex t i el)
  show ?case
  proof (cases "el < t")
    case False
    with "1.prems" show ?thesis by (auto simp add: waitLoop_timeout)
  next
    case lt: True
    obtain lat out where o: "obs i = (lat, out)" by (cases "obs i")
    show ?thesis
    proof (cases out)
      case Rejects
      with "1.prems" lt o show ?thesis by (auto simp add: waitLoop_reject)
    next
      case (Resolves s)
      show ?thesis
      proof (cases "strict_eq s ex")
        case True
        with "1.prems" lt o Resolves show ?thesis by (auto simp add: waitLoop_match)
      next
        case False
        have rec: "waitLoop obs ex t (Suc i) (el + lat + 500) = (r, p, e)"
          using "1.prems" lt o Resolves False by (simp add: waitLoop_again)
        note ih = "1.IH"[OF lt o[symmetric] Resolves False rec]
        have ip: "Suc i \<le> p" using waitLoop_polls[OF rec] by simp
        then have ls: "latency_sum obs i p = lat + latency_sum obs (Suc i) p"
          using latency_sum_step[of i p obs] o by simp
        have d: "500 * (p - i) = 500 + 500 * (p - Suc i)" using ip by simp
        show ?thesis using ih unfolding ls d by auto
      qed
    qed
  qed
qed

lemma waitLoop_observes:
  "waitLoop obs ex t i el = (r, p, e) \<Longrightarrow>
   (\<forall>k. i \<le> k \<and> k < p \<and> observes obs ex k \<longrightarrow> r = Inr True \<and> p = Suc k) \<and>
   (r = Inr True \<longrightarrow> i < p \<and> observes obs ex (p - 1)) \<and>
   (r = Inr False \<longrightarrow> (\<forall>k. i \<le> k \<and> k < p \<longrightarrow> \<not> observes obs ex k))"
proof (induction obs ex t i el arbitrary: r p e rule: waitLoop.induct)
  case (1 obs ex t i el)
  have only: "\<And>k. i \<le> k \<Longrightarrow> k < Suc i \<Longrightarrow> k = i" by simp
  show ?case
  proof (cases "el < t")
    case False
    with "1.prems" have "r = Inr False" "p = i" by (simp_all add: waitLoop_timeout)
    then show ?thesis by auto
  next
    case lt: True
    obtain lat out where o: "obs i = (lat, out)" by (cases "obs i")
    show ?thesis
    proof (cases out)
      case Rejects
      with "1.prems" lt o have rp: "r = Inl PageError" "p = Suc i"
        by (simp_all add: waitLoop_reject)
      have ni: "\<not> observes obs ex i" using o Rejects by (simp add: observes_def)
      show ?thesis unfolding rp using ni only by blast
    next
      case (Resolves s)
      show ?thesis
      proof (cases "strict_eq s ex")
        case True
        with "1.prems" lt o Resolves have rp: "r = Inr True" "p = Suc i"
          by (simp_all add: waitLoop_match)
        have yes: "observes obs ex i" using o Resolves True by (simp add: observes_def)
        show ?thesis unfolding rp using yes only by auto
      next
        case False
        have rec: "waitLoop obs ex t (Suc i) (el + lat + 500) = (r, p, e)"
          using "1.prems" lt o Resolves False by (simp add: waitLoop_again)
        note ih = "1.IH"[OF lt o[symmetric] Resolves False rec]
        have ni: "\<not> observes obs ex i" using o Resolves False by (simp add: observes_def)
        have ip: "Suc i \<le> p" using waitLoop_polls[OF rec] by simp
        have up: "\<And>k. i \<le> k \<Longrightarrow> observes obs ex k \<Longrightarrow> Suc i \<le> k"
          using ni by (metis Suc_leI le_neq_implies_less)
        from ih have a: "\<forall>k. Suc i \<le> k \<and> k < p \<and> observes obs ex k \<longrightarrow> r = Inr True \<and> p = Suc k"
          and b: "r = Inr True \<longrightarrow> Suc i < p \<and> observes obs ex (p - 1)"
          and c: "r = Inr False \<longrightarrow> (\<forall>k. Suc i \<le> k \<and> k < p \<longrightarrow> \<not> observes obs ex k)"
          by blast+
        have a': "\<forall>k. i \<le> k \<and> k < p \<and> observes obs ex k \<longrightarrow> r = Inr True \<and> p = Suc k"
          using a up by blast
        have b': "r = Inr True \<longrightarrow> i < p \<and> observes obs ex (p - 1)"
          using b by auto
        have c': "r = Inr False \<longrightarrow> (\<forall>k. i \<le> k \<and> k < p \<longrightarrow> \<not> observes obs ex k)"
          using c up by blast
        from a' b' c' show ?thesis by blast
      qed
    qed
  qed
qed


lemma prev_disposition_step_no_call:
  "prev_disposition_step cfg env c callInfo = (r, c1, evs) \<Longrightarrow> calls_started evs = 0"
  using viaAPI_no_call[of cfg "prev_fallback env" c callInfo]
  by (auto simp add: prev_disposition_step_def Let_def
        split: outcome.splits bool.splits prod.splits if_splits)

lemma calls_started_replicate_sleep [simp]: "calls_started (replicate n (Sleep m)) = 0"
  by (induction n) simp_all

lemma prev_handleCall_effect:
  "isRunning (fst (prev_handleCall cfg env st callInfo)) = isRunning st \<and>
   inCall (fst (prev_handleCall cfg env st callInfo)) = inCall st \<and>
   callCount (fst (prev_handleCall cfg env st callInfo)) = callCount st + 1 \<and>
   lastLeadId (fst (prev_handleCall cfg env st callInfo)) = JNull \<and>
   lastCallLogId (fst (prev_handleCall cfg env st callInfo)) = JNull \<and>
   calls_started (snd (prev_handleCall cfg env st callInfo)) = 1"
proof (cases "prev_wrapupClicked env")
  case Rejects
  then show ?thesis by (simp add: prev_handleCall_def prev_call_catch_def Let_def)
next
  case (Resolves w)
  obtain r1 c1 evs1 where d: "prev_disposition_step cfg env (client st) callInfo = (r1, c1, evs1)"
    by (metis prod_cases3)
  obtain r2 polls elapsed where wt: "waitForPhoneState (prev_phoneStates env) (JNum 2) 10000 = (r2, polls, elapsed)"
    by (metis prod_cases3)
  note z = prev_disposition_step_no_call[OF d]
  show ?thesis
    using z Resolves
    by (cases r1; cases r2) (simp_all add: prev_handleCall_def prev_call_catch_def Let_def d wt)
qed

lemma prev_handleCall_after_wait:
  assumes "prev_wrapupClicked env = Resolves w"
    and "prev_disposition_step cfg env (client st) callInfo = (Inr (), c1, evs)"
    and "waitForPhoneState (prev_phoneStates env) (JNum 2) 10000 = (Inr b, polls, elapsed)"
  shows "\<exists>pre. snd (prev_handleCall cfg env st callInfo) =
           pre @ [if b then Info ''Ready for next call''
                  else Warn ''Did not return to Available state in time'',
                  Info ''Call completed'', Sleep 3000]"
  using assms by (simp add: prev_handleCall_def Let_def)

text \<open>
  The iteration finds phone state 2 and a call whose pair of lead id and call-log id is
  not the remembered pair.
\<close>

definition new_call_detected :: "agent \<Rightarrow> prev_iter_env \<Rightarrow> json \<Rightarrow> bool" where
  "new_call_detected st e callInfo =
     (prev_phoneState e = Resolves (JNum 2) \<and> prev_detected e = Resolves callInfo \<and>
      truthy callInfo \<and> truthy (getprop_opt callInfo ''lead_id'') \<and>
      (if strict_eq (lastLeadId st) (getprop_opt callInfo ''lead_id'')
       then \<not> strict_eq (lastCallLogId st) (getprop_opt callInfo ''call_log_id'') else True))"

lemma prev_monitorCalls_handles:
  assumes "isRunning st" "\<not> maxCallsReached cfg st" "\<not> inCall st" "new_call_detected st e callInfo"
  shows "snd (prev_monitorCalls cfg st (e # es)) =
           snd (prev_handleCall cfg (prev_call e)
                  (st\<lparr>inCall := True, lastLeadId := getprop_opt callInfo ''lead_id'',
                      lastCallLogId := getprop_opt callInfo ''call_log_id''\<rparr>) callInfo) @
           snd (prev_monitorCalls cfg
                  ((fst (prev_handleCall cfg (prev_call e)
                     (st\<lparr>inCall := True, lastLeadId := getprop_opt callInfo ''lead_id'',
                         lastCallLogId := getprop_opt callInfo ''call_log_id''\<rparr>) callInfo))
                   \<lparr>inCall := False\<rparr>) es)"
  using assms
  by (auto simp add: new_call_detected_def split: prod.splits if_splits)


text \<open>Two sequences of poll answers: the state never returns to 2; it is 2 at the third poll.\<close>

definition never_available :: phone_obs where
  "never_available = (\<lambda>k. (1, Resolves (JNum 3)))"

definition available_at_third :: phone_obs where
  "available_at_third = (\<lambda>k. (1, Resolves (if k = 2 then JNum 2 else JNum 3)))"

lemma wait_never_available: "waitForPhoneState never_available (JNum 2) 10000 = (Inr False, 20, 10020)"
  by (simp add: waitForPhoneState_def never_available_def waitLoop.simps)

lemma wait_available_at_third: "waitForPhoneState available_at_third (JNum 2) 10000 = (Inr True, 3, 1003)"
  by (simp add: waitForPhoneState_def available_at_third_def waitLoop.simps)

text \<open>
  Claim C9 as stated (false is returned after at most the timeout) fails as soon as the
  page takes time to answer: the deadline is checked only before a poll, so with polls
  that take 1 ms each and never show state 2 the twentieth poll still starts inside the
  10 s and the wait returns false 10020 ms after it began.
\<close>

theorem wait_overshoots_timeout:
  "fst (waitForPhoneState never_available (JNum 2) 10000) = Inr False \<and>
   snd (snd (waitForPhoneState never_available (JNum 2) 10000)) = 10020 \<and>
   \<not> (10020 \<le> (10000 :: nat))"
  by (simp add: wait_never_available)

text \<open>
  Claim C9, amended. \<open>waitForPhoneState\<close> returns for every sequence of poll answers,
  after at most \<open>timeoutMs / 500\<close> polls rounded up (20 for the 10 s of \<open>handleCall\<close>).
  A poll that observes the expected state ends the wait at once with \<open>true\<close>; \<open>false\<close>
  is returned when no poll observed it, at the first deadline check at or after the
  timeout: never before the timeout, and after the sleeps (500 ms per poll made) plus
  the time the polls themselves took. \<open>handleCall\<close> always returns, having counted the
  call and cleared the remembered identity; after a wait that returned \<open>true\<close> or
  \<open>false\<close> it ends with the same completion log and 3 s pause, with a warning in place
  of the ready message on \<open>false\<close>, and the monitoring loop goes on with the next
  iteration.
\<close>

theorem bounded_recovery_wait:
  "(case waitForPhoneState obs expectedState timeoutMs of
      (r, polls, elapsed) \<Rightarrow>
        polls \<le> (timeoutMs + 499) div 500 \<and>
        elapsed \<le> 500 * polls + latency_sum obs 0 polls \<and>
        (\<forall>k<polls. observes obs expectedState k \<longrightarrow> r = Inr True \<and> polls = Suc k) \<and>
        (r = Inr True \<longrightarrow> 0 < polls \<and> observes obs expectedState (polls - 1)) \<and>
        (r = Inr False \<longrightarrow>
           timeoutMs \<le> elapsed \<and> elapsed = 500 * polls + latency_sum obs 0 polls \<and>
           (\<forall>k<polls. \<not> observes obs expectedState k))) \<and>
   fst (snd (waitForPhoneState obs expectedState 10000)) \<le> 20 \<and>
   callCount (fst (prev_handleCall cfg env st callInfo)) = callCount st + 1 \<and>
   lastLeadId (fst (prev_handleCall cfg env st callInfo)) = JNull \<and>
   lastCallLogId (fst (prev_handleCall cfg env st callInfo)) = JNull \<and>
   isRunning (fst (prev_handleCall cfg env st callInfo)) = isRunning st \<and>
   (\<forall>w c1 evs b polls elapsed.
      prev_wrapupClicked env = Resolves w \<and>
      prev_disposition_step cfg env (client st) callInfo = (Inr (), c1, evs) \<and>
      waitForPhoneState (prev_phoneStates env) (JNum 2) 10000 = (Inr b, polls, elapsed) \<longrightarrow>
      (\<exists>pre. snd (prev_handleCall cfg env st callInfo) =
         pre @ [if b then Info ''Ready for next call''
                else Warn ''Did not return to Available state in time'',
                Info ''Call completed'', Sleep 3000])) \<and>
   (isRunning st2 \<and> \<not> maxCallsReached cfg st2 \<and> \<not> inCall st2 \<and> new_call_detected st2 e info \<longrightarrow>
      snd (prev_monitorCalls cfg st2 (e # es)) =
        snd (prev_handleCall cfg (prev_call e)
               (st2\<lparr>inCall := True, lastLeadId := getprop_opt info ''lead_id'',
                    lastCallLogId := getprop_opt info ''call_log_id''\<rparr>) info) @
        snd (prev_monitorCalls cfg
               ((fst (prev_handleCall cfg (prev_call e)
                  (st2\<lparr>inCall := True, lastLeadId := getprop_opt info ''lead_id'',
                       lastCallLogId := getprop_opt info ''call_log_id''\<rparr>) info))
                \<lparr>inCall := False\<rparr>) es))"
proof -
  obtain r polls elapsed where w: "waitLoop obs expectedState timeoutMs 0 0 = (r, polls, elapsed)"
    by (metis prod_cases3)
  note p = waitLoop_polls[OF w] and el = waitLoop_elapsed[OF w] and ob = waitLoop_observes[OF w]
  have first: "(case waitForPhoneState obs expectedState timeoutMs of
      (r, polls, elapsed) \<Rightarrow>
        polls \<le> (timeoutMs + 499) div 500 \<and>
        elapsed \<le> 500 * polls + latency_sum obs 0 polls \<and>
        (\<forall>k<polls. observes obs expectedState k \<longrightarrow> r = Inr True \<and> polls = Suc k) \<and>
        (r = Inr True \<longrightarrow> 0 < polls \<and> observes obs expectedState (polls - 1)) \<and>
        (r = Inr False \<longrightarrow>
           timeoutMs \<le> elapsed \<and> elapsed = 500 * polls + latency_sum obs 0 polls \<and>
           (\<forall>k<polls. \<not> observes obs expectedState k)))"
    unfolding waitForPhoneState_def w using p el ob by auto
  obtain r2 p2 e2 where w2: "waitLoop obs expectedState 10000 0 0 = (r2, p2, e2)"
    by (metis prod_cases3)
  have second: "fst (snd (waitForPhoneState obs expectedState 10000)) \<le> 20"
    unfolding waitForPhoneState_def w2 using waitLoop_polls[OF w2] by simp
  note third = prev_handleCall_effect[of cfg env st callInfo]
  have fourth: "\<forall>w c1 evs b polls elapsed.
      prev_wrapupClicked env = Resolves w \<and>
      prev_disposition_step cfg env (client st) callInfo = (Inr (), c1, evs) \<and>
      waitForPhoneState (prev_phoneStates env) (JNum 2) 10000 = (Inr b, polls, elapsed) \<longrightarrow>
      (\<exists>pre. snd (prev_handleCall cfg env st callInfo) =
         pre @ [if b then Info ''Ready for next call''
                else Warn ''Did not return to Available state in time'',
                Info ''Call completed'', Sleep 3000])"
    using prev_handleCall_after_wait by blast
  note fifth = prev_monitorCalls_handles[of st2 cfg e info es]
  from first second third fourth fifth show ?thesis by blast
qed

definition demo_prev_call_env :: prev_call_env where
  "demo_prev_call_env =
     \<lparr>prev_wrapupClicked = Resolves True, prev_dispositionSet = Resolves True,
      prev_panelOpened = Resolves False, prev_retryDispo = Resolves False,
      prev_fallback = demo_call_env, prev_phoneStates = never_available\<rparr>"

theorem bounded_recovery_wait_witness:
  "waitForPhoneState never_available (JNum 2) 10000 = (Inr False, 20, 10020) \<and>
   waitForPhoneState available_at_third (JNum 2) 10000 = (Inr True, 3, 1003) \<and>
   observes available_at_third (JNum 2) 2 \<and>
   (\<exists>pre. snd (prev_handleCall default_config demo_prev_call_env agent_started demo_callInfo) =
      pre @ [Warn ''Did not return to Available state in time'', Info ''Call completed'',
             Sleep 3000])"
proof -
  note t = bounded_recovery_wait[where obs = available_at_third and expectedState = "JNum 2"
      and timeoutMs = 10000 and cfg = default_config and env = demo_prev_call_env
      and st = agent_started and callInfo = demo_callInfo]
  have h1: "prev_wrapupClicked demo_prev_call_env = Resolves True"
    by (simp add: demo_prev_call_env_def)
  have h2: "prev_disposition_step default_config demo_prev_call_env (client agent_started)
              demo_callInfo = (Inr (), client agent_started, [Click DispositionStatusButton])"
    by (simp add: demo_prev_call_env_def prev_disposition_step_def)
  have h3: "waitForPhoneState (prev_phoneStates demo_prev_call_env) (JNum 2) 10000 =
              (Inr False, 20, 10020)"
    using wait_never_available by (simp add: demo_prev_call_env_def)
  from t h1 h2 h3
  have "\<exists>pre. snd (prev_handleCall default_config demo_prev_call_env agent_started demo_callInfo) =
      pre @ [if False then Info ''Ready for next call''
             else Warn ''Did not return to Available state in time'', Info ''Call completed'',
             Sleep 3000]"
    by blast
  moreover from t have "observes available_at_third (JNum 2) (3 - 1)"
    by (simp add: wait_available_at_third)
  ultimately show ?thesis
    using wait_never_available wait_available_at_third by simp
qed



section \<open>Stop signals and the event loop\<close>

text \<open>
  \<open>Application.shutdown(exitCode)\<close>, which the SIGINT and SIGTERM handlers call with
  the default exit code 0: await \<open>agent.stop()\<close>, then \<open>process.exit\<close>; when \<open>stop\<close>
  rejects, log and exit with code 1.
\<close>

definition shutdown :: "stop_env \<Rightarrow> agent \<Rightarrow> nat \<Rightarrow> agent \<times> event list" where
  "shutdown env st exitCode =
     (case stop env st of
        (Inr _, st1, evs) \<Rightarrow> (st1, evs @ [Exit exitCode])
      | (Inl _, st1, evs) \<Rightarrow> (st1, evs @ [Err ''Error during shutdown'', Exit 1]))"

text \<open>
  The signal handler runs on the same event loop as the monitoring loop, which is
  suspended in one of \<open>handleCall\<close>'s awaits. Each of the two tasks is a trace, and
  every action of a trace takes time: \<open>lat k\<close> is the time between the end of action
  \<open>k - 1\<close> of the task and the moment action \<open>k\<close> takes effect (the time a call into
  the page, a request or \<open>browser.close()\<close> takes, the lateness of a timer), and a
  sleep of \<open>n\<close> ms lasts \<open>n\<close> ms more. \<open>timeline lat k t evs\<close> gives every action of
  a task, whose action \<open>k\<close> is started at time \<open>t\<close> (in ms), the time at which it
  takes effect; \<open>end_time\<close> is the time at which the task is through.
\<close>

fun timeline :: "(nat \<Rightarrow> nat) \<Rightarrow> nat \<Rightarrow> nat \<Rightarrow> event list \<Rightarrow> (nat \<times> event) list" where
  "timeline lat k t [] = []"
| "timeline lat k t (Sleep n # evs) = timeline lat (Suc k) (t + lat k + n) evs"
| "timeline lat k t (e # evs) = (t + lat k, e) # timeline lat (Suc k) (t + lat k) evs"

fun end_time :: "(nat \<Rightarrow> nat) \<Rightarrow> nat \<Rightarrow> nat \<Rightarrow> event list \<Rightarrow> nat" where
  "end_time lat k t [] = t"
| "end_time lat k t (Sleep n # evs) = end_time lat (Suc k) (t + lat k + n) evs"
| "end_time lat k t (e # evs) = end_time lat (Suc k) (t + lat k) evs"

text \<open>The sleeps of a task, summed.\<close>

fun sleep_total :: "event list \<Rightarrow> nat" where
  "sleep_total [] = 0"
| "sleep_total (Sleep n # evs) = n + sleep_total evs"
| "sleep_total (e # evs) = sleep_total evs"

text \<open>
  \<open>process.exit\<close> discards every pending timer and every pending call: of a task, the
  actions that take effect by time \<open>T\<close> run.
\<close>

definition due_by :: "nat \<Rightarrow> (nat \<times> event) list \<Rightarrow> (nat \<times> event) list" where
  "due_by T xs = takeWhile (\<lambda>(t, e). t \<le> T) xs"

text \<open>Two tasks on one event loop: their actions in order of time, the first task first on a tie.\<close>

fun merge_by_time :: "(nat \<times> event) list \<Rightarrow> (nat \<times> event) list \<Rightarrow> (nat \<times> event) list" where
  "merge_by_time [] ys = ys"
| "merge_by_time xs [] = xs"
| "merge_by_time ((t, a) # xs) ((u, b) # ys) =
     (if t \<le> u then (t, a) # merge_by_time xs ((u, b) # ys)
      else (u, b) # merge_by_time ((t, a) # xs) ys)"

text \<open>
  What the process does when \<open>handleCall\<close> is entered at time \<open>t0\<close> and a stop signal
  arrives at time \<open>ts\<close>, with the latencies \<open>latc\<close> of the call's actions and \<open>lats\<close>
  of the shutdown's: the actions of \<open>handleCall\<close> that take effect before the exit,
  interleaved with the shutdown, which ends the process.
\<close>

definition stop_during_call ::
  "config \<Rightarrow> call_env \<Rightarrow> stop_env \<Rightarrow> agent \<Rightarrow> json \<Rightarrow> (nat \<Rightarrow> nat) \<Rightarrow> (nat \<Rightarrow> nat) \<Rightarrow> nat \<Rightarrow> nat \<Rightarrow>
   (nat \<times> event) list" where
  "stop_during_call cfg cenv senv st callInfo latc lats t0 ts =
     (let callTask = snd (handleCall cfg cenv
                            (st\<lparr>inCall := True, lastLeadId := getprop_opt callInfo ''lead_id''\<rparr>)
                            callInfo);
          downTask = snd (shutdown senv (st\<lparr>inCall := True\<rparr>) 0);
          exitTime = end_time lats 0 ts downTask
      in merge_by_time (due_by exitTime (timeline latc 0 t0 callTask)) (timeline lats 0 ts downTask))"

fun is_sleep :: "event \<Rightarrow> bool" where
  "is_sleep (Sleep _) = True"
| "is_sleep _ = False"

text \<open>
  The actions that end or disposition a call: a click on a wrap-up or disposition
  control, and any REST request.
\<close>

fun is_call_step :: "event \<Rightarrow> bool" where
  "is_call_step (Click WrapupButton) = True"
| "is_call_step (Click WrapupModalButton) = True"
| "is_call_step (Click DispositionStatusButton) = True"
| "is_call_step (Click DispositionPanelButton) = True"
| "is_call_step (Request _ _ _ _) = True"
| "is_call_step _ = False"

lemma timeline_ge: "(u, e) \<in> set (timeline lat k t evs) \<Longrightarrow> t \<le> u"
proof (induction lat k t evs rule: timeline.induct)
  case (1 lat k t)
  then show ?case by simp
next
  case (2 lat k t n evs)
  then show ?case by fastforce
qed fastforce+

lemma end_time_sum:
  "end_time lat k t evs = t + sleep_total evs + sum_list (map lat [k..<k + length evs])"
proof (induction evs arbitrary: k t)
  case Nil
  show ?case by simp
next
  case (Cons e evs)
  have u: "[k..<k + length (e # evs)] = k # [Suc k..<Suc k + length evs]"
    by (simp add: upt_conv_Cons del: upt_Suc)
  show ?case unfolding u by (cases e) (simp_all add: Cons.IH)
qed

lemma end_time_ge: "t \<le> end_time lat k t evs"
  by (simp add: end_time_sum)

lemma due_by_later: "T < t \<Longrightarrow> due_by T (timeline lat k t evs) = []"
proof (cases "timeline lat k t evs")
  case Nil
  then show ?thesis by (simp add: due_by_def)
next
  case (Cons x xs)
  obtain u e where x: "x = (u, e)" by (cases x)
  assume "T < t"
  moreover have "t \<le> u" using timeline_ge[of u e lat k t evs] Cons x by simp
  ultimately show ?thesis using Cons x by (simp add: due_by_def)
qed

lemma map_snd_timeline: "map snd (timeline lat k t evs) = filter (\<lambda>e. \<not> is_sleep e) evs"
  by (induction lat k t evs rule: timeline.induct) simp_all

lemma merge_first:
  assumes "u0 \<le> ts"
  shows "merge_by_time [(u0, e)] (timeline lat k ts evs) = (u0, e) # timeline lat k ts evs"
proof (cases "timeline lat k ts evs")
  case Nil
  then show ?thesis by simp
next
  case (Cons x xs)
  obtain u b where x: "x = (u, b)" by (cases x)
  have "ts \<le> u" using timeline_ge[of u b lat k ts evs] Cons x by simp
  with assms Cons x show ?thesis by simp
qed

lemma handleCall_opens:
  "\<exists>rest. snd (handleCall cfg env st callInfo) =
      CallStarted (callCount st + 1) (getprop_opt callInfo ''lead_id'') #
      Sleep (callDuration cfg) # rest"
proof -
  obtain r1 c1 evs1 where e1: "endCall_step cfg env (client st) callInfo = (r1, c1, evs1)"
    by (metis prod_cases3)
  obtain r2 c2 evs2 where e2: "disposition_step cfg env c1 callInfo = (r2, c2, evs2)"
    by (metis prod_cases3)
  show ?thesis
    by (cases r1; cases r2) (simp_all add: handleCall_def Let_def e1 e2)
qed

lemma stop_sleeps:
  "stop env st = (r, st1, evs) \<Longrightarrow> sleep_total evs \<le> 3000 \<and> filter is_call_step evs = []"
  by (auto simp add: stop_def stop_catch_def click_if_def Let_def
        split: if_splits outcome.splits)

lemma sleep_total_append [simp]: "sleep_total (xs @ ys) = sleep_total xs + sleep_total ys"
  by (induction xs rule: sleep_total.induct) simp_all

lemma shutdown_sleeps:
  "sleep_total (snd (shutdown env st code)) \<le> 3000 \<and>
   filter is_call_step (snd (shutdown env st code)) = []"
proof -
  obtain r st1 evs where s: "stop env st = (r, st1, evs)" by (metis prod_cases3)
  from stop_sleeps[OF s] show ?thesis
    by (cases r) (simp_all add: shutdown_def s)
qed

lemma stop_ignores_inCall:
  "snd (snd (stop env (st\<lparr>inCall := b\<rparr>))) = snd (snd (stop env st))"
  by (simp add: stop_def stop_catch_def Let_def split: outcome.splits)

lemma stop_inCall:
  "stop env st = (r, st1, evs) \<Longrightarrow> stop env (st\<lparr>inCall := b\<rparr>) = (r, st1\<lparr>inCall := b\<rparr>, evs)"
  by (auto simp add: stop_def stop_catch_def Let_def split: if_splits outcome.splits)

lemma shutdown_ignores_inCall:
  "snd (shutdown env (st\<lparr>inCall := b\<rparr>) code) = snd (shutdown env st code)"
proof -
  obtain r st1 evs where s: "stop env st = (r, st1, evs)" by (metis prod_cases3)
  show ?thesis
    by (cases r) (simp_all add: shutdown_def s stop_inCall[OF s])
qed

text \<open>
  Claim C8, amended. \<open>stop\<close> does not drain: the shutdown a stop signal starts is the
  same whatever \<open>inCall\<close> is, and it begins at once. The process exits when the
  shutdown is through, which is the time of the signal plus the sleeps of the shutdown
  (3 s at most) plus the time its actions take (the two calls into the page and
  \<open>browser.close()\<close> among them). When the signal arrives after the call was opened
  and that exit comes before the configured duration of the call has passed since
  \<open>handleCall\<close> was entered, then whatever time the actions of either task take, the
  process performs the call's opening log, then the shutdown sequence, and exits: no
  end-call and no disposition step of the open call runs.
\<close>

theorem stop_abandons_open_call:
  assumes "t0 + latc 0 \<le> ts"
    and "end_time lats 0 ts (snd (shutdown senv st 0)) < t0 + callDuration cfg"
  shows "map snd (stop_during_call cfg cenv senv st callInfo latc lats t0 ts) =
           CallStarted (callCount st + 1) (getprop_opt callInfo ''lead_id'') #
           filter (\<lambda>e. \<not> is_sleep e) (snd (shutdown senv st 0)) \<and>
         filter is_call_step
           (map snd (stop_during_call cfg cenv senv st callInfo latc lats t0 ts)) = [] \<and>
         snd (shutdown senv (st\<lparr>inCall := b\<rparr>) code) = snd (shutdown senv st code) \<and>
         end_time lats 0 ts (snd (shutdown senv st 0)) =
           ts + sleep_total (snd (shutdown senv st 0)) +
           sum_list (map lats [0..<length (snd (shutdown senv st 0))]) \<and>
         sleep_total (snd (shutdown senv st 0)) \<le> 3000"
proof -
  let ?st = "st\<lparr>inCall := True, lastLeadId := getprop_opt callInfo ''lead_id''\<rparr>"
  let ?down = "snd (shutdown senv (st\<lparr>inCall := True\<rparr>) 0)"
  let ?open = "CallStarted (callCount st + 1) (getprop_opt callInfo ''lead_id'')"
  obtain rest where h: "snd (handleCall cfg cenv ?st callInfo) =
      ?open # Sleep (callDuration cfg) # rest"
    using handleCall_opens[of cfg cenv ?st callInfo] by auto
  have down: "?down = snd (shutdown senv st 0)" by (rule shutdown_ignores_inCall)
  have le: "sleep_total ?down \<le> 3000" and none: "filter is_call_step ?down = []"
    using shutdown_sleeps[of senv "st\<lparr>inCall := True\<rparr>" 0] by simp_all
  let ?T = "end_time lats 0 ts ?down"
  have T1: "t0 + latc 0 \<le> ?T" using assms(1) end_time_ge[of ts lats 0 ?down] by simp
  have T2: "?T < t0 + latc 0 + latc (Suc 0) + callDuration cfg" using assms(2) down by simp
  have due: "due_by ?T (timeline latc 0 t0 (snd (handleCall cfg cenv ?st callInfo))) =
               [(t0 + latc 0, ?open)]"
    using T1 due_by_later[OF T2, of latc "Suc (Suc 0)" rest]
    by (simp add: h due_by_def)
  have tr: "stop_during_call cfg cenv senv st callInfo latc lats t0 ts =
              (t0 + latc 0, ?open) # timeline lats 0 ts ?down"
    unfolding stop_during_call_def Let_def due using merge_first[OF assms(1)] by simp
  have first: "map snd (stop_during_call cfg cenv senv st callInfo latc lats t0 ts) =
           ?open # filter (\<lambda>e. \<not> is_sleep e) (snd (shutdown senv st 0))"
    unfolding tr by (simp add: map_snd_timeline down)
  have "filter is_call_step (filter (\<lambda>e. \<not> is_sleep e) ?down) = []"
    using none by (auto simp add: filter_empty_conv)
  then have second: "filter is_call_step
      (map snd (stop_during_call cfg cenv senv st callInfo latc lats t0 ts)) = []"
    unfolding tr by (simp add: map_snd_timeline)
  have third: "snd (shutdown senv (st\<lparr>inCall := b\<rparr>) code) = snd (shutdown senv st code)"
    by (rule shutdown_ignores_inCall)
  have fourth: "end_time lats 0 ts (snd (shutdown senv st 0)) =
           ts + sleep_total (snd (shutdown senv st 0)) +
           sum_list (map lats [0..<length (snd (shutdown senv st 0))])"
    using end_time_sum[of lats 0 ts "snd (shutdown senv st 0)"] by simp
  have fifth: "sleep_total (snd (shutdown senv st 0)) \<le> 3000"
    using le down by simp
  show ?thesis
    apply (intro conjI)
    apply (rule first)
    apply (rule second)
    apply (rule third)
    apply (rule fourth)
    apply (rule fifth)
    done
qed

lemma handleCall_demo_trace:
  "snd (handleCall default_config demo_call_env st demo_callInfo) =
     [CallStarted (callCount st + 1) (JNum 42), Sleep 15000, Click WrapupButton, Sleep 2000,
      Click DispositionStatusButton, Sleep 2000, Info ''Call completed'',
      Info ''Waiting for next call...'', Sleep 3000]"
  by (simp add: handleCall_def endCall_step_def disposition_step_def demo_call_env_def
      demo_callInfo_def default_config_def getprop_opt_def Let_def)

lemma shutdown_demo_trace:
  "snd (shutdown demo_stop_env (agent_started\<lparr>inCall := True\<rparr>) 0) =
     [Click StatusButton, Sleep 1000, Click NotReadyBreakOption, Sleep 2000, CloseBrowser,
      Info ''Agent stopped successfully'', Exit 0]"
  by (simp add: shutdown_def stop_def demo_stop_env_def agent_started_def click_if_def)

lemma agent_started_callCount: "callCount agent_started = 0"
  by (simp add: agent_started_def)

text \<open>
  Claim C8 as stated fails. With the default 15 s hold, a call detected at time 0, a
  stop signal at 1 s and every action taking 5 ms, the process exits at 4.035 s having
  clicked neither WRAPUP nor the disposition button, both of which the undisturbed call
  would have clicked.
\<close>

theorem stop_signal_skips_drain:
  "stop_during_call default_config demo_call_env demo_stop_env agent_started
      demo_callInfo (\<lambda>k. 5) (\<lambda>k. 5) 0 1000 =
     [(5, CallStarted 1 (JNum 42)), (1005, Click StatusButton),
      (2015, Click NotReadyBreakOption), (4025, CloseBrowser),
      (4030, Info ''Agent stopped successfully''), (4035, Exit 0)] \<and>
   Click WrapupButton \<in> set (snd (handleCall default_config demo_call_env agent_started demo_callInfo)) \<and>
   Click DispositionStatusButton \<in>
     set (snd (handleCall default_config demo_call_env agent_started demo_callInfo))"
  by (simp add: stop_during_call_def handleCall_demo_trace shutdown_demo_trace due_by_def
      agent_started_callCount Let_def)

theorem stop_abandons_open_call_witness:
  "filter is_call_step (map snd (stop_during_call default_config demo_call_env demo_stop_env
      agent_started demo_callInfo (\<lambda>k. 5) (\<lambda>k. 40) 0 5000)) = [] \<and>
   end_time (\<lambda>k. 40) 0 5000 (snd (shutdown demo_stop_env agent_started 0)) = 8280"
proof -
  have tr: "snd (shutdown demo_stop_env agent_started 0) =
     [Click StatusButton, Sleep 1000, Click NotReadyBreakOption, Sleep 2000, CloseBrowser,
      Info ''Agent stopped successfully'', Exit 0]"
    using shutdown_demo_trace
      shutdown_ignores_inCall[where env = demo_stop_env and st = agent_started and b = True
        and code = 0]
    by simp
  have h1: "0 + (\<lambda>k. 5) (0 :: nat) \<le> (5000 :: nat)" by simp
  have h2: "end_time (\<lambda>k. 40) 0 5000 (snd (shutdown demo_stop_env agent_started 0)) <
              0 + callDuration default_config"
    by (simp add: tr default_config_def)
  note t = stop_abandons_open_call[OF h1 h2, where cenv = demo_call_env and callInfo = demo_callInfo]
  have e: "end_time (\<lambda>k. 40) 0 5000 (snd (shutdown demo_stop_env agent_started 0)) = 8280"
    by (simp add: tr)
  from t[THEN conjunct2, THEN conjunct1] e show ?thesis by (intro conjI)
qed


section \<open>Duplicate suppression\<close>

text \<open>
  Both \<open>handleCall\<close>s clear the remembered identity before they return, on the normal
  path and in the \<open>catch\<close>, and the loops await them. So whenever a loop compares a
  detection with the remembered identity, that identity is \<open>null\<close>: with no budget,
  every iteration that detects a call enters \<open>handleCall\<close>, whatever the lead is.
\<close>

lemma monitorCalls_handles_every_detection:
  "maxCalls cfg \<le> 0 \<Longrightarrow> isRunning st \<Longrightarrow> \<not> inCall st \<Longrightarrow> lastLeadId st = JNull \<Longrightarrow>
   list_all call_detected envs \<Longrightarrow>
   calls_started (snd (monitorCalls cfg st envs)) = length envs"
proof (induction envs arbitrary: st)
  case Nil
  then show ?case by simp
next
  case (Cons e es)
  have nb: "\<not> maxCallsReached cfg st" using Cons.prems(1) by (simp add: maxCallsReached_def)
  from Cons.prems(5) obtain callInfo where d: "detected e = Resolves callInfo"
    and act: "truthy callInfo" "truthy (getprop_opt callInfo ''lead_id'')"
    by (auto simp add: call_detected_def split: outcome.splits)
  have neq: "\<not> strict_eq (lastLeadId st) (getprop_opt callInfo ''lead_id'')"
    using Cons.prems(4) act(2) strict_eq_null[of "getprop_opt callInfo ''lead_id''"] by metis
  let ?st0 = "st\<lparr>inCall := True, lastLeadId := getprop_opt callInfo ''lead_id''\<rparr>"
  obtain st1 evs where h: "handleCall cfg (call e) ?st0 callInfo = (st1, evs)"
    by (metis prod.exhaust)
  have he: "isRunning st1 = isRunning st \<and> lastLeadId st1 = JNull \<and> calls_started evs = 1"
    using handleCall_effect[of cfg "call e" ?st0 callInfo] by (simp add: h)
  have "calls_started (snd (monitorCalls cfg (st1\<lparr>inCall := False\<rparr>) es)) = length es"
    using he Cons.prems by (intro Cons.IH) simp_all
  then show ?case
    using Cons.prems(2,3) nb d act neq h he
    by (auto simp add: split: prod.splits)
qed

text \<open>The earlier loop's iteration finds phone state 2 and a call.\<close>

definition prev_call_detected :: "prev_iter_env \<Rightarrow> bool" where
  "prev_call_detected e =
     (prev_phoneState e = Resolves (JNum 2) \<and>
      (case prev_detected e of
         Rejects \<Rightarrow> False
       | Resolves callInfo \<Rightarrow> truthy callInfo \<and> truthy (getprop_opt callInfo ''lead_id'')))"

lemma prev_monitorCalls_handles_every_detection:
  "maxCalls cfg \<le> 0 \<Longrightarrow> isRunning st \<Longrightarrow> \<not> inCall st \<Longrightarrow> lastLeadId st = JNull \<Longrightarrow>
   list_all prev_call_detected envs \<Longrightarrow>
   calls_started (snd (prev_monitorCalls cfg st envs)) = length envs"
proof (induction envs arbitrary: st)
  case Nil
  then show ?case by simp
next
  case (Cons e es)
  have nb: "\<not> maxCallsReached cfg st" using Cons.prems(1) by (simp add: maxCallsReached_def)
  from Cons.prems(5) obtain callInfo where ph: "prev_phoneState e = Resolves (JNum 2)"
    and d: "prev_detected e = Resolves callInfo"
    and act: "truthy callInfo" "truthy (getprop_opt callInfo ''lead_id'')"
    by (auto simp add: prev_call_detected_def split: outcome.splits)
  have neq: "\<not> strict_eq (lastLeadId st) (getprop_opt callInfo ''lead_id'')"
    using Cons.prems(4) act(2) strict_eq_null[of "getprop_opt callInfo ''lead_id''"] by metis
  let ?st0 = "st\<lparr>inCall := True, lastLeadId := getprop_opt callInfo ''lead_id'',
                 lastCallLogId := getprop_opt callInfo ''call_log_id''\<rparr>"
  obtain st1 evs where h: "prev_handleCall cfg (prev_call e) ?st0 callInfo = (st1, evs)"
    by (metis prod.exhaust)
  have he: "isRunning st1 = isRunning st \<and> lastLeadId st1 = JNull \<and> calls_started evs = 1"
    using prev_handleCall_effect[of cfg "prev_call e" ?st0 callInfo] by (simp add: h)
  have "calls_started (snd (prev_monitorCalls cfg (st1\<lparr>inCall := False\<rparr>) es)) = length es"
    using he Cons.prems by (intro Cons.IH) simp_all
  then show ?case
    using Cons.prems(2,3) nb ph d act neq h he
    by (auto simp add: split: prod.splits)
qed

lemma default_maxCalls: "maxCalls default_config = 0"
  by (simp add: default_config_def)

text \<open>
  Sample answers for the earlier agent: phone state 2 and a given call info; a call info
  with a call-log id; a call after which the phone state returns to 2 at the third poll.
\<close>

definition demo_prev_iter :: "json \<Rightarrow> prev_call_env \<Rightarrow> prev_iter_env" where
  "demo_prev_iter info env =
     \<lparr>prev_phoneState = Resolves (JNum 2), prev_detected = Resolves info, prev_call = env,
      prev_stopping = \<lparr>prev_availabilitySet = Resolves True, prev_logoutSuccess = Resolves True,
                        prev_closeBrowser = Resolves (), prev_closeBrowserInCatch = Resolves ()\<rparr>\<rparr>"

definition demo_callInfo_logged :: json where
  "demo_callInfo_logged = JObj [(''lead_id'', JNum 42), (''call_log_id'', JNum 7),
                                (''phone_code'', JStr ''1''), (''phone_number'', JStr ''5551234567'')]"

definition demo_prev_call_ok :: prev_call_env where
  "demo_prev_call_ok = demo_prev_call_env\<lparr>prev_phoneStates := available_at_third\<rparr>"

lemma prev_handleCall_demo:
  "prev_handleCall default_config demo_prev_call_ok st demo_callInfo_logged =
   (st\<lparr>callCount := callCount st + 1, lastLeadId := JNull, lastCallLogId := JNull\<rparr>,
    [CallStarted (callCount st + 1) (JNum 42), Sleep 15000, Click WrapupButton, Sleep 4000,
     Click DispositionStatusButton, Sleep 500, Sleep 500, Info ''Ready for next call'',
     Info ''Call completed'', Sleep 3000])"
  by (simp add: prev_handleCall_def prev_disposition_step_def demo_prev_call_env_def
      demo_prev_call_ok_def
      wait_available_at_third demo_callInfo_logged_def getprop_opt_def default_config_def
      numeral_2_eq_2)

lemma monitorCalls_demo_twice:
  "filter is_call_started
     (snd (monitorCalls default_config agent_started
        [demo_iter 42 demo_call_env, demo_iter 42 demo_call_env])) =
   [CallStarted 1 (JNum 42), CallStarted 2 (JNum 42)]"
  by (simp add: demo_iter_def agent_started_def maxCallsReached_def getprop_opt_def
      handleCall_def endCall_step_def disposition_step_def demo_call_env_def default_config_def
      Let_def)

lemma prev_monitorCalls_demo_twice:
  "filter is_call_started
     (snd (prev_monitorCalls default_config agent_started
        [demo_prev_iter demo_callInfo_logged demo_prev_call_ok,
         demo_prev_iter demo_callInfo_logged demo_prev_call_ok])) =
   [CallStarted 1 (JNum 42), CallStarted 2 (JNum 42)]"
  by (simp add: demo_prev_iter_def agent_started_def maxCallsReached_def default_maxCalls
      demo_callInfo_logged_def getprop_opt_def
      prev_handleCall_demo[unfolded demo_callInfo_logged_def])

text \<open>
  Claim C1 on the code. The page reports the same call (lead 42, and in the earlier
  agent call-log id 7) on two consecutive iterations, the second right after the first
  call was closed. Both agents enter \<open>handleCall\<close> twice for it, as calls number 1 and
  number 2.
\<close>

theorem duplicate_detection_rehandled:
  "filter is_call_started
     (snd (monitorCalls default_config agent_started
        [demo_iter 42 demo_call_env, demo_iter 42 demo_call_env])) =
   [CallStarted 1 (JNum 42), CallStarted 2 (JNum 42)] \<and>
   filter is_call_started
     (snd (prev_monitorCalls default_config agent_started
        [demo_prev_iter demo_callInfo_logged demo_prev_call_ok,
         demo_prev_iter demo_callInfo_logged demo_prev_call_ok])) =
   [CallStarted 1 (JNum 42), CallStarted 2 (JNum 42)]"
  using monitorCalls_demo_twice prev_monitorCalls_demo_twice by simp


end
